theory Spec2Isabelle
  imports Main "HOL-Library.Sublist"
begin

section \<open>JavaScript values used by the tunnel\<close>

text \<open>
  A header value, an environment variable or a query parameter is a string or
  \<^verbatim>\<open>undefined\<close>; it is a \<^typ>\<open>string option\<close>, with \<^term>\<open>None\<close> for
  \<^verbatim>\<open>undefined\<close>. The test \<^verbatim>\<open>!v\<close> holds of \<^verbatim>\<open>undefined\<close> and of the
  empty string.
\<close>

type_synonym jsval = "string option"

definition falsy :: "jsval \<Rightarrow> bool" where
  "falsy v = (case v of None \<Rightarrow> True | Some s \<Rightarrow> s = [])"

text \<open>\<^verbatim>\<open>`${v}`\<close>: a template literal prints \<^verbatim>\<open>undefined\<close> by its name.\<close>

definition js_show :: "jsval \<Rightarrow> string" where
  "js_show v = (case v of None \<Rightarrow> ''undefined'' | Some s \<Rightarrow> s)"

text \<open>
  \<^verbatim>\<open>s.indexOf(p)\<close>: the first position at which \<^verbatim>\<open>p\<close> occurs in \<^verbatim>\<open>s\<close>,
  or \<^verbatim>\<open>-1\<close>. \<^verbatim>\<open>s.includes(p)\<close> tells whether there is one.
\<close>

fun indexOfFrom :: "nat \<Rightarrow> string \<Rightarrow> string \<Rightarrow> int" where
  "indexOfFrom i [] p = (if p = [] then int i else - 1)"
| "indexOfFrom i (c # cs) p =
     (if prefix p (c # cs) then int i else indexOfFrom (Suc i) cs p)"

definition indexOf :: "string \<Rightarrow> string \<Rightarrow> int" where
  "indexOf s p = indexOfFrom 0 s p"

definition js_includes :: "string \<Rightarrow> string \<Rightarrow> bool" where
  "js_includes s p = (indexOf s p \<noteq> - 1)"

text \<open>
  \<^verbatim>\<open>xs.sort(cmp)\<close> is the platform's routine. It is modelled as the stable
  insertion sort that places each element, left to right, by asking
  \<^verbatim>\<open>cmp(new, placed) < 0\<close>, the test of V8's binary insertion.
\<close>

fun insert_by :: "('a \<Rightarrow> 'a \<Rightarrow> int) \<Rightarrow> 'a \<Rightarrow> 'a list \<Rightarrow> 'a list" where
  "insert_by cmp x [] = [x]"
| "insert_by cmp x (y # ys) =
     (if cmp x y < 0 then x # y # ys else y # insert_by cmp x ys)"

definition js_sort :: "('a \<Rightarrow> 'a \<Rightarrow> int) \<Rightarrow> 'a list \<Rightarrow> 'a list" where
  "js_sort cmp xs = foldl (\<lambda>acc x. insert_by cmp x acc) [] xs"

section \<open>The agent registry of the edge (http2server.js)\<close>

text \<open>
  One entry of \<^verbatim>\<open>tunnelSockets\<close>. \<^verbatim>\<open>host\<close> and \<^verbatim>\<open>pathPrefix\<close> are read from
  the handshake headers, so either may be \<^verbatim>\<open>undefined\<close>. The socket object is
  known by a number.
\<close>

record registration =
  host :: jsval
  pathPrefix :: jsval
  socket :: nat
  supportsHTTP2 :: bool

type_synonym registry = "registration list"

definition getTunnelSocket :: "registry \<Rightarrow> jsval \<Rightarrow> jsval \<Rightarrow> registration option" where
  "getTunnelSocket ts h pp = find (\<lambda>s. host s = h \<and> pathPrefix s = pp) ts"

definition removeTunnelSocket :: "registry \<Rightarrow> jsval \<Rightarrow> jsval \<Rightarrow> registry" where
  "removeTunnelSocket ts h pp = filter (\<lambda>s. \<not> (host s = h \<and> pathPrefix s = pp)) ts"

text \<open>The filter callback of \<^verbatim>\<open>getAvailableTunnelSocket\<close>.\<close>

definition tunnel_matches :: "jsval \<Rightarrow> string \<Rightarrow> registration \<Rightarrow> bool" where
  "tunnel_matches h url s =
     (if host s \<noteq> h then False
      else if falsy (pathPrefix s) then True
      else indexOf url (the (pathPrefix s)) = 0)"

text \<open>The comparator of \<^verbatim>\<open>getAvailableTunnelSocket\<close>.\<close>

definition tunnel_cmp :: "registration \<Rightarrow> registration \<Rightarrow> int" where
  "tunnel_cmp a b =
     (if falsy (pathPrefix a) then 1
      else if falsy (pathPrefix b) then - 1
      else int (length (the (pathPrefix b))) - int (length (the (pathPrefix a))))"

definition getAvailableTunnelSocket :: "registry \<Rightarrow> jsval \<Rightarrow> string \<Rightarrow> registration option" where
  "getAvailableTunnelSocket ts h url =
     (let tunnels = js_sort tunnel_cmp (filter (tunnel_matches h url) ts)
      in case tunnels of [] \<Rightarrow> None | t # _ \<Rightarrow> Some t)"

text \<open>
  The set the specification resolves in, in its own words: the registrations of the
  host whose path prefix is empty or a prefix of the URL. An absent prefix counts as
  empty, and has length 0.
\<close>

definition spec_candidates :: "registry \<Rightarrow> jsval \<Rightarrow> string \<Rightarrow> registration set" where
  "spec_candidates R h u =
     {r. r \<in> set R \<and> host r = h \<and>
         (falsy (pathPrefix r) \<or> prefix (the (pathPrefix r)) u)}"

definition prefix_length :: "registration \<Rightarrow> nat" where
  "prefix_length r = (case pathPrefix r of None \<Rightarrow> 0 | Some p \<Rightarrow> length p)"

text \<open>The head of the sorted array is never shorter than an element behind it.\<close>

definition head_longest :: "registration list \<Rightarrow> bool" where
  "head_longest ys =
     (case ys of [] \<Rightarrow> True | y # _ \<Rightarrow> list_all (\<lambda>z. prefix_length z \<le> prefix_length y) ys)"

section \<open>The edge dispatcher (http2server.js)\<close>

type_synonym headers = "string \<rightharpoonup> string"
type_synonym rid = string
type_synonym chunk = string

text \<open>
  What the handlers read of an incoming public request: \<^verbatim>\<open>req.httpVersion\<close>,
  \<^verbatim>\<open>req.method\<close> (the field \<open>http_method\<close>), \<^verbatim>\<open>req.url\<close>, \<^verbatim>\<open>req.headers\<close>,
  \<^verbatim>\<open>!!req.socket.encrypted\<close> and \<^verbatim>\<open>req.socket?.remoteAddress\<close>.
\<close>

record request =
  httpVersion :: string
  http_method :: string
  url :: string
  headers :: headers
  encrypted :: bool
  remoteAddress :: jsval

text \<open>
  \<^verbatim>\<open>setTunnelSocket\<close> pushes the entry of a socket whose handshake headers are
  \<^verbatim>\<open>hs\<close>.
\<close>

definition setTunnelSocket :: "registry \<Rightarrow> jsval \<Rightarrow> jsval \<Rightarrow> nat \<Rightarrow> headers \<Rightarrow> registry" where
  "setTunnelSocket ts h pp sock hs =
     ts @ [\<lparr>host = h, pathPrefix = pp, socket = sock,
            supportsHTTP2 = (hs ''supports-http2'' = Some ''true'')\<rparr>]"

text \<open>
  \<^verbatim>\<open>handleRequest\<close> answers 404 itself or hands the request, with the socket of
  the chosen agent and a fresh request id, to one of the two tunnel handlers.
\<close>

datatype dispatch =
    Respond nat string
  | HandleHTTP2Request nat rid
  | HandleHTTP1Request nat rid

definition isHttp2 :: "request \<Rightarrow> bool" where
  "isHttp2 req =
     (httpVersion req = ''2.0'' \<or>
      (case headers req ''content-type'' of
         None \<Rightarrow> False
       | Some ct \<Rightarrow> ct \<noteq> [] \<and> js_includes ct ''application/grpc''))"

definition handleRequest :: "registry \<Rightarrow> request \<Rightarrow> rid \<Rightarrow> dispatch" where
  "handleRequest ts req requestId =
     (case getAvailableTunnelSocket ts (headers req ''host'') (url req) of
        None \<Rightarrow> Respond 404 ''Not Found''
      | Some tunnelSocketObj \<Rightarrow>
          if isHttp2 req \<and> supportsHTTP2 tunnelSocketObj
          then HandleHTTP2Request (socket tunnelSocketObj) requestId
          else HandleHTTP1Request (socket tunnelSocketObj) requestId)"

text \<open>
  \<^verbatim>\<open>getReqHeaders\<close>. \<^verbatim>\<open>new URL(...)\<close> is the platform's parser; it is the
  parameter \<^verbatim>\<open>url_port\<close>, which gives the \<^verbatim>\<open>port\<close> of the parsed URL (empty
  when the URL names none or the scheme's default), or \<^term>\<open>None\<close> when the
  constructor throws. The three appended headers are written in the order of the
  source's \<^verbatim>\<open>forEach\<close>.
\<close>

definition or_empty :: "jsval \<Rightarrow> string" where
  "or_empty v = (case v of None \<Rightarrow> [] | Some s \<Rightarrow> s)"

definition forward_header :: "request \<Rightarrow> headers \<Rightarrow> string \<times> string \<Rightarrow> headers" where
  "forward_header req hs kv =
     (let previousValue = or_empty (headers req (''x-forwarded-'' @ fst kv))
      in hs(''x-forwarded-'' @ fst kv \<mapsto>
            previousValue @ (if previousValue \<noteq> [] then '','' else []) @ snd kv))"

definition getReqHeaders :: "(string \<Rightarrow> string option) \<Rightarrow> request \<Rightarrow> headers option" where
  "getReqHeaders url_port req =
     (let hst = or_empty (headers req ''host'') in
      case url_port ((if encrypted req then ''https'' else ''http'') @ ''://'' @ hst) of
        None \<Rightarrow> None
      | Some port \<Rightarrow>
          let forwardValues =
                [(''for'', js_show (remoteAddress req)),
                 (''port'', if port \<noteq> [] then port else if encrypted req then ''443'' else ''80''),
                 (''proto'', if encrypted req then ''https'' else ''http'')];
              hs = foldl (forward_header req) (headers req) forwardValues
          in Some (hs(''x-forwarded-host'' \<mapsto>
                       (if falsy (headers req ''x-forwarded-host'') then hst
                        else the (headers req ''x-forwarded-host'')))))"

text \<open>
  The value the specification gives to an appended header, in its own words: the
  prior value, a comma and the new value, or the new value alone when there is no
  prior value. A header whose value is the empty string has no value.
\<close>

definition spec_appended :: "jsval \<Rightarrow> string \<Rightarrow> string" where
  "spec_appended prior new =
     (if prior = None \<or> prior = Some [] then new else the prior @ '','' @ new)"

text \<open>
  The callback of the route \<^verbatim>\<open>/tunnel_jwt_generator\<close>: the status and the body
  it sends. \<^verbatim>\<open>jwt.sign\<close> belongs to the jsonwebtoken package and is the parameter
  \<^verbatim>\<open>sign\<close>, applied to the \<^verbatim>\<open>token\<close> of the payload and to the key; it
  gives \<^term>\<open>None\<close> when it throws, which it does before the callback has set a
  status.
\<close>

record env =
  JWT_GENERATOR_USERNAME :: jsval
  JWT_GENERATOR_PASSWORD :: jsval
  VERIFY_TOKEN :: jsval
  SECRET_KEY :: jsval

record query =
  username :: jsval
  password :: jsval

datatype route_result = Sent nat string | Thrown

definition tunnel_jwt_generator ::
  "(jsval \<Rightarrow> jsval \<Rightarrow> string option) \<Rightarrow> env \<Rightarrow> query \<Rightarrow> route_result" where
  "tunnel_jwt_generator sign e q =
     (if falsy (JWT_GENERATOR_USERNAME e) \<or> falsy (JWT_GENERATOR_PASSWORD e)
      then Sent 404 ''Not found''
      else if username q = JWT_GENERATOR_USERNAME e \<and> password q = JWT_GENERATOR_PASSWORD e
      then (case sign (VERIFY_TOKEN e) (SECRET_KEY e) of
              None \<Rightarrow> Thrown
            | Some jwtToken \<Rightarrow> Sent 200 jwtToken)
      else Sent 401 ''Forbidden'')"

text \<open>
  The express application called on a request. Its one route answers GET, and HEAD
  with it, when the URL up to its query string is the path of the route;
  \<^verbatim>\<open>req.query\<close> is what express reads from the query string of \<^verbatim>\<open>req.url\<close>,
  the parameter \<^verbatim>\<open>query_of\<close>. The result is \<^term>\<open>None\<close> when the route does
  not match and express answers by itself.
\<close>

definition app ::
  "(jsval \<Rightarrow> jsval \<Rightarrow> string option) \<Rightarrow> (string \<Rightarrow> query) \<Rightarrow> env \<Rightarrow> request \<Rightarrow>
   route_result option" where
  "app sign query_of e req =
     (if (http_method req = ''GET'' \<or> http_method req = ''HEAD'') \<and>
         takeWhile (\<lambda>c. c \<noteq> CHR ''?'') (url req) = ''/tunnel_jwt_generator''
      then Some (tunnel_jwt_generator sign e (query_of (url req)))
      else None)"

text \<open>
  The listener of the server's \<^verbatim>\<open>request\<close> event, the same on the HTTP/1.1 and
  on the HTTP/2 server: the request goes to express when \<^verbatim>\<open>req.url\<close>, query
  string included, is exactly the path of the route, and to \<^verbatim>\<open>handleRequest\<close>
  otherwise.
\<close>

datatype served = By_express "route_result option" | By_handleRequest dispatch

definition on_server_request ::
  "(jsval \<Rightarrow> jsval \<Rightarrow> string option) \<Rightarrow> (string \<Rightarrow> query) \<Rightarrow> env \<Rightarrow> registry \<Rightarrow>
   request \<Rightarrow> rid \<Rightarrow> served" where
  "on_server_request sign query_of e ts req requestId =
     (let expressRoute = (url req = ''/tunnel_jwt_generator'')
      in if expressRoute then By_express (app sign query_of e req)
         else By_handleRequest (handleRequest ts req requestId))"

section \<open>Registration of agents (http2server.js)\<close>

text \<open>
  What the edge reads of a socket that asks to connect: the socket object, known by
  a number, \<^verbatim>\<open>socket.handshake.headers\<close> and \<^verbatim>\<open>socket.handshake.auth.token\<close>.
\<close>

record handshake =
  hs_socket :: nat
  hs_headers :: headers
  hs_token :: jsval

text \<open>One call of the middleware's \<^verbatim>\<open>next\<close>, with or without an error.\<close>

datatype next_call = Next | Next_Error string

text \<open>
  The middleware given to \<^verbatim>\<open>io.use\<close>: the calls of \<^verbatim>\<open>next\<close> it makes, in
  order. \<^verbatim>\<open>jwt.verify\<close> belongs to the jsonwebtoken package and is the parameter
  \<^verbatim>\<open>jwt_verify\<close>: \<^term>\<open>None\<close> when it reports an error, else the
  \<^verbatim>\<open>token\<close> of the decoded payload. The branch of a missing token has no
  \<^verbatim>\<open>return\<close>, so the verification runs after it.
\<close>

definition io_use ::
  "(jsval \<Rightarrow> jsval \<Rightarrow> jsval option) \<Rightarrow> env \<Rightarrow> registry \<Rightarrow> handshake \<Rightarrow> next_call list" where
  "io_use jwt_verify e ts hk =
     (let connectHost = hs_headers hk ''host'';
          pathPrefix = hs_headers hk ''path-prefix''
      in if getTunnelSocket ts connectHost pathPrefix \<noteq> None
         then [Next_Error (js_show connectHost @ '' has a existing connection'')]
         else (if falsy (hs_token hk) then [Next_Error ''Authentication error''] else []) @
              [case jwt_verify (hs_token hk) (SECRET_KEY e) of
                 None \<Rightarrow> Next_Error ''Authentication error''
               | Some decoded \<Rightarrow>
                   if decoded \<noteq> VERIFY_TOKEN e then Next_Error ''Authentication error''
                   else Next])"

text \<open>
  The state of the registry: \<^verbatim>\<open>tunnelSockets\<close>; the listeners attached with
  \<^verbatim>\<open>socket.once('disconnect', onDisconnect)\<close>, each with the socket it is attached
  to and the \<^verbatim>\<open>connectHost\<close> and \<^verbatim>\<open>pathPrefix\<close> its closure holds; and the
  sockets that the middleware has admitted and whose connection handler has not
  run yet, in the order of their admission.
\<close>

record edge =
  tunnelSockets :: registry
  disconnectListeners :: "(nat \<times> jsval \<times> jsval) list"
  admitted :: "handshake list"

text \<open>The handler of \<^verbatim>\<open>io.on('connection')\<close>. It inserts without a look at the registry.\<close>

definition connection :: "edge \<Rightarrow> handshake \<Rightarrow> edge" where
  "connection ed hk =
     (let connectHost = hs_headers hk ''host'';
          pathPrefix = hs_headers hk ''path-prefix''
      in ed\<lparr>tunnelSockets :=
              setTunnelSocket (tunnelSockets ed) connectHost pathPrefix (hs_socket hk) (hs_headers hk),
            disconnectListeners :=
              disconnectListeners ed @ [(hs_socket hk, connectHost, pathPrefix)]\<rparr>)"

definition onDisconnect :: "registry \<Rightarrow> nat \<times> jsval \<times> jsval \<Rightarrow> registry" where
  "onDisconnect ts l = removeTunnelSocket ts (fst (snd l)) (snd (snd l))"

text \<open>
  A socket disconnects: its listeners run, and being attached with \<^verbatim>\<open>once\<close>
  they are gone afterwards.
\<close>

definition disconnect :: "edge \<Rightarrow> nat \<Rightarrow> edge" where
  "disconnect ed sock =
     ed\<lparr>tunnelSockets :=
          foldl onDisconnect (tunnelSockets ed)
            (filter (\<lambda>l. fst l = sock) (disconnectListeners ed)),
        disconnectListeners := filter (\<lambda>l. fst l \<noteq> sock) (disconnectListeners ed)\<rparr>"

text \<open>
  The edge runs one callback at a time, and the middleware and the connection
  handler are two callbacks: a handshake runs the middleware, which admits the
  socket when it calls \<^verbatim>\<open>next\<close> with no error; the connection handler of the
  socket admitted first runs later, as an event of its own, and other callbacks may
  run in between.
\<close>

datatype edge_event = Handshake handshake | Connection | Disconnect nat

definition edge_step ::
  "(jsval \<Rightarrow> jsval \<Rightarrow> jsval option) \<Rightarrow> env \<Rightarrow> edge \<Rightarrow> edge_event \<Rightarrow> edge" where
  "edge_step jwt_verify e ed ev =
     (case ev of
        Handshake hk \<Rightarrow>
          if Next \<in> set (io_use jwt_verify e (tunnelSockets ed) hk)
          then ed\<lparr>admitted := admitted ed @ [hk]\<rparr> else ed
      | Connection \<Rightarrow>
          (case admitted ed of
             [] \<Rightarrow> ed
           | hk # rest \<Rightarrow> connection (ed\<lparr>admitted := rest\<rparr>) hk)
      | Disconnect sock \<Rightarrow> disconnect ed sock)"

definition edge_run ::
  "(jsval \<Rightarrow> jsval \<Rightarrow> jsval option) \<Rightarrow> env \<Rightarrow> edge_event list \<Rightarrow> edge" where
  "edge_run jwt_verify e evs =
     foldl (edge_step jwt_verify e)
       \<lparr>tunnelSockets = [], disconnectListeners = [], admitted = []\<rparr> evs"

section \<open>Frames of the control channel\<close>

text \<open>
  The events of the tunnel socket come in two families: the HTTP/2 names carry the
  prefix \<^verbatim>\<open>http2-\<close>, the HTTP/1 names none. A frame is an event with its request
  id and its payload. \<^verbatim>\<open>http2-response-trailers\<close> has no HTTP/1 twin.
\<close>

datatype family = HTTP1 | HTTP2

record descriptor =
  d_method :: string
  d_headers :: headers
  d_path :: string
  d_httpVersion :: jsval

record response_head =
  statusCode :: nat
  statusMessage :: string
  r_headers :: headers

datatype frame =
    Request family rid descriptor
  | Request_pipe family rid chunk
  | Request_pipes family rid "chunk list"
  | Request_pipe_end family rid
  | Request_pipe_error family rid string
  | Response family rid response_head
  | Response_pipe family rid chunk
  | Response_pipes family rid "chunk list"
  | Response_pipe_end family rid "chunk option"
  | Response_pipe_error family rid string
  | Response_trailers rid headers
  | Request_error family rid string

fun frame_id :: "frame \<Rightarrow> rid" where
  "frame_id (Request _ i _) = i"
| "frame_id (Request_pipe _ i _) = i"
| "frame_id (Request_pipes _ i _) = i"
| "frame_id (Request_pipe_end _ i) = i"
| "frame_id (Request_pipe_error _ i _) = i"
| "frame_id (Response _ i _) = i"
| "frame_id (Response_pipe _ i _) = i"
| "frame_id (Response_pipes _ i _) = i"
| "frame_id (Response_pipe_end _ i _) = i"
| "frame_id (Response_pipe_error _ i _) = i"
| "frame_id (Response_trailers i _) = i"
| "frame_id (Request_error _ i _) = i"

fun frame_family :: "frame \<Rightarrow> family" where
  "frame_family (Request fam _ _) = fam"
| "frame_family (Request_pipe fam _ _) = fam"
| "frame_family (Request_pipes fam _ _) = fam"
| "frame_family (Request_pipe_end fam _) = fam"
| "frame_family (Request_pipe_error fam _ _) = fam"
| "frame_family (Response fam _ _) = fam"
| "frame_family (Response_pipe fam _ _) = fam"
| "frame_family (Response_pipes fam _ _) = fam"
| "frame_family (Response_pipe_end fam _ _) = fam"
| "frame_family (Response_pipe_error fam _ _) = fam"
| "frame_family (Response_trailers _ _) = HTTP2"
| "frame_family (Request_error fam _ _) = fam"

text \<open>The name of the event on the wire.\<close>

definition family_prefix :: "family \<Rightarrow> string" where
  "family_prefix fam = (case fam of HTTP1 \<Rightarrow> [] | HTTP2 \<Rightarrow> ''http2-'')"

fun event_name :: "frame \<Rightarrow> string" where
  "event_name (Request fam _ _) = family_prefix fam @ ''request''"
| "event_name (Request_pipe fam _ _) = family_prefix fam @ ''request-pipe''"
| "event_name (Request_pipes fam _ _) = family_prefix fam @ ''request-pipes''"
| "event_name (Request_pipe_end fam _) = family_prefix fam @ ''request-pipe-end''"
| "event_name (Request_pipe_error fam _ _) = family_prefix fam @ ''request-pipe-error''"
| "event_name (Response fam _ _) = family_prefix fam @ ''response''"
| "event_name (Response_pipe fam _ _) = family_prefix fam @ ''response-pipe''"
| "event_name (Response_pipes fam _ _) = family_prefix fam @ ''response-pipes''"
| "event_name (Response_pipe_end fam _ _) = family_prefix fam @ ''response-pipe-end''"
| "event_name (Response_pipe_error fam _ _) = family_prefix fam @ ''response-pipe-error''"
| "event_name (Response_trailers _ _) = ''http2-response-trailers''"
| "event_name (Request_error fam _ _) = family_prefix fam @ ''request-error''"

section \<open>The writable side of the tunnel streams (lib2.js)\<close>

text \<open>
  What the writing methods touch of the control channel: the frames handed to
  \<^verbatim>\<open>socket.emit\<close>, in order; the completion callbacks of the listeners attached
  with \<^verbatim>\<open>socket.conn.once('drain', ...)\<close> and not yet run; and the completion
  callbacks invoked so far. A completion callback is known by a number.
\<close>

record channel =
  wire :: "frame list"
  drain_once :: "nat list"
  called :: "nat list"

definition socket_emit :: "frame \<Rightarrow> channel \<Rightarrow> channel" where
  "socket_emit f ch = ch\<lparr>wire := wire ch @ [f]\<rparr>"

definition conn_once_drain :: "nat \<Rightarrow> channel \<Rightarrow> channel" where
  "conn_once_drain callback ch = ch\<lparr>drain_once := drain_once ch @ [callback]\<rparr>"

text \<open>
  The transport emits \<^verbatim>\<open>drain\<close>: every listener attached with \<^verbatim>\<open>once\<close> runs,
  in the order of attachment, and is gone.
\<close>

definition conn_drain :: "channel \<Rightarrow> channel" where
  "conn_drain ch = ch\<lparr>drain_once := [], called := called ch @ drain_once ch\<rparr>"

text \<open>
  \<^verbatim>\<open>_write\<close>, \<^verbatim>\<open>_writev\<close> and \<^verbatim>\<open>_final\<close> of \<^verbatim>\<open>HTTP2TunnelRequest\<close>.
\<close>

definition HTTP2TunnelRequest_write :: "rid \<Rightarrow> chunk \<Rightarrow> nat \<Rightarrow> channel \<Rightarrow> channel" where
  "HTTP2TunnelRequest_write requestId chunk callback ch =
     conn_once_drain callback (socket_emit (Request_pipe HTTP2 requestId chunk) ch)"

definition HTTP2TunnelRequest_writev :: "rid \<Rightarrow> chunk list \<Rightarrow> nat \<Rightarrow> channel \<Rightarrow> channel" where
  "HTTP2TunnelRequest_writev requestId chunks callback ch =
     conn_once_drain callback (socket_emit (Request_pipes HTTP2 requestId chunks) ch)"

definition HTTP2TunnelRequest_final :: "rid \<Rightarrow> nat \<Rightarrow> channel \<Rightarrow> channel" where
  "HTTP2TunnelRequest_final requestId callback ch =
     conn_once_drain callback (socket_emit (Request_pipe_end HTTP2 requestId) ch)"

text \<open>
  \<^verbatim>\<open>_write\<close>, \<^verbatim>\<open>_writev\<close> and \<^verbatim>\<open>_final\<close> of \<^verbatim>\<open>HTTP2TunnelResponse\<close>.
\<close>

definition HTTP2TunnelResponse_write :: "rid \<Rightarrow> chunk \<Rightarrow> nat \<Rightarrow> channel \<Rightarrow> channel" where
  "HTTP2TunnelResponse_write responseId chunk callback ch =
     conn_once_drain callback (socket_emit (Response_pipe HTTP2 responseId chunk) ch)"

definition HTTP2TunnelResponse_writev :: "rid \<Rightarrow> chunk list \<Rightarrow> nat \<Rightarrow> channel \<Rightarrow> channel" where
  "HTTP2TunnelResponse_writev responseId chunks callback ch =
     conn_once_drain callback (socket_emit (Response_pipes HTTP2 responseId chunks) ch)"

definition HTTP2TunnelResponse_final :: "rid \<Rightarrow> nat \<Rightarrow> channel \<Rightarrow> channel" where
  "HTTP2TunnelResponse_final responseId callback ch =
     conn_once_drain callback (socket_emit (Response_pipe_end HTTP2 responseId None) ch)"

text \<open>
  Modelled from the spec: \<^verbatim>\<open>_write\<close>, \<^verbatim>\<open>_writev\<close> and \<^verbatim>\<open>_final\<close> of the class
  \<^verbatim>\<open>TunnelRequest\<close> of \<^verbatim>\<open>./lib\<close>, which the HTTP/1 handler uses and which is not
  among the sources. The specification says that the two event families carry the
  same semantics and differ in the prefix of the event names, and that the emitter
  awaits the drain signal of the transport before it acknowledges its source.
\<close>

definition TunnelRequest_write :: "rid \<Rightarrow> chunk \<Rightarrow> nat \<Rightarrow> channel \<Rightarrow> channel" where
  "TunnelRequest_write requestId chunk callback ch =
     conn_once_drain callback (socket_emit (Request_pipe HTTP1 requestId chunk) ch)"

definition TunnelRequest_writev :: "rid \<Rightarrow> chunk list \<Rightarrow> nat \<Rightarrow> channel \<Rightarrow> channel" where
  "TunnelRequest_writev requestId chunks callback ch =
     conn_once_drain callback (socket_emit (Request_pipes HTTP1 requestId chunks) ch)"

definition TunnelRequest_final :: "rid \<Rightarrow> nat \<Rightarrow> channel \<Rightarrow> channel" where
  "TunnelRequest_final requestId callback ch =
     conn_once_drain callback (socket_emit (Request_pipe_end HTTP1 requestId) ch)"

text \<open>
  Modelled from the spec: \<^verbatim>\<open>_write\<close>, \<^verbatim>\<open>_writev\<close> and \<^verbatim>\<open>_final\<close> of the class
  \<^verbatim>\<open>TunnelResponse\<close> of \<^verbatim>\<open>./lib\<close>, not among the sources either, on the same
  grounds.
\<close>

definition TunnelResponse_write :: "rid \<Rightarrow> chunk \<Rightarrow> nat \<Rightarrow> channel \<Rightarrow> channel" where
  "TunnelResponse_write responseId chunk callback ch =
     conn_once_drain callback (socket_emit (Response_pipe HTTP1 responseId chunk) ch)"

definition TunnelResponse_writev :: "rid \<Rightarrow> chunk list \<Rightarrow> nat \<Rightarrow> channel \<Rightarrow> channel" where
  "TunnelResponse_writev responseId chunks callback ch =
     conn_once_drain callback (socket_emit (Response_pipes HTTP1 responseId chunks) ch)"

definition TunnelResponse_final :: "rid \<Rightarrow> nat \<Rightarrow> channel \<Rightarrow> channel" where
  "TunnelResponse_final responseId callback ch =
     conn_once_drain callback (socket_emit (Response_pipe_end HTTP1 responseId None) ch)"

text \<open>
  What happens on a channel, one thing at a time: the stream machinery calls a
  writing method of some tunnel stream with a completion callback, or the transport
  emits \<^verbatim>\<open>drain\<close>.
\<close>

datatype stream_class = HTTP2TunnelRequest | HTTP2TunnelResponse | TunnelRequest | TunnelResponse

datatype stream_op =
    Op_write stream_class rid chunk nat
  | Op_writev stream_class rid "chunk list" nat
  | Op_final stream_class rid nat
  | Op_drain

fun channel_step :: "channel \<Rightarrow> stream_op \<Rightarrow> channel" where
  "channel_step ch (Op_write HTTP2TunnelRequest i c cb) = HTTP2TunnelRequest_write i c cb ch"
| "channel_step ch (Op_writev HTTP2TunnelRequest i cs cb) = HTTP2TunnelRequest_writev i cs cb ch"
| "channel_step ch (Op_final HTTP2TunnelRequest i cb) = HTTP2TunnelRequest_final i cb ch"
| "channel_step ch (Op_write HTTP2TunnelResponse i c cb) = HTTP2TunnelResponse_write i c cb ch"
| "channel_step ch (Op_writev HTTP2TunnelResponse i cs cb) = HTTP2TunnelResponse_writev i cs cb ch"
| "channel_step ch (Op_final HTTP2TunnelResponse i cb) = HTTP2TunnelResponse_final i cb ch"
| "channel_step ch (Op_write TunnelRequest i c cb) = TunnelRequest_write i c cb ch"
| "channel_step ch (Op_writev TunnelRequest i cs cb) = TunnelRequest_writev i cs cb ch"
| "channel_step ch (Op_final TunnelRequest i cb) = TunnelRequest_final i cb ch"
| "channel_step ch (Op_write TunnelResponse i c cb) = TunnelResponse_write i c cb ch"
| "channel_step ch (Op_writev TunnelResponse i cs cb) = TunnelResponse_writev i cs cb ch"
| "channel_step ch (Op_final TunnelResponse i cb) = TunnelResponse_final i cb ch"
| "channel_step ch Op_drain = conn_drain ch"

definition channel_run :: "stream_op list \<Rightarrow> channel" where
  "channel_run ops = foldl channel_step \<lparr>wire = [], drain_once = [], called = []\<rparr> ops"

text \<open>
  The frame a call is to emit, by the class of its stream, and the completion
  callback it was given.
\<close>

definition class_family :: "stream_class \<Rightarrow> family" where
  "class_family c =
     (case c of HTTP2TunnelRequest \<Rightarrow> HTTP2 | HTTP2TunnelResponse \<Rightarrow> HTTP2
              | TunnelRequest \<Rightarrow> HTTP1 | TunnelResponse \<Rightarrow> HTTP1)"

definition request_class :: "stream_class \<Rightarrow> bool" where
  "request_class c =
     (case c of HTTP2TunnelRequest \<Rightarrow> True | TunnelRequest \<Rightarrow> True | _ \<Rightarrow> False)"

fun op_frame :: "stream_op \<Rightarrow> frame option" where
  "op_frame (Op_write c i d cb) =
     Some (if request_class c then Request_pipe (class_family c) i d
           else Response_pipe (class_family c) i d)"
| "op_frame (Op_writev c i ds cb) =
     Some (if request_class c then Request_pipes (class_family c) i ds
           else Response_pipes (class_family c) i ds)"
| "op_frame (Op_final c i cb) =
     Some (if request_class c then Request_pipe_end (class_family c) i
           else Response_pipe_end (class_family c) i None)"
| "op_frame Op_drain = None"

fun op_callback :: "stream_op \<Rightarrow> nat option" where
  "op_callback (Op_write _ _ _ cb) = Some cb"
| "op_callback (Op_writev _ _ _ cb) = Some cb"
| "op_callback (Op_final _ _ cb) = Some cb"
| "op_callback Op_drain = None"

text \<open>
  Of a sequence of calls and a completion callback: a call that emits a frame was
  given the callback; and, moreover, the transport emitted \<^verbatim>\<open>drain\<close> after that
  call.
\<close>

definition emitted_before :: "stream_op list \<Rightarrow> nat \<Rightarrow> bool" where
  "emitted_before ops cb \<longleftrightarrow> (\<exists>a x b. ops = a @ x # b \<and> op_callback x = Some cb \<and> op_frame x \<noteq> None)"

definition drained_after :: "stream_op list \<Rightarrow> nat \<Rightarrow> bool" where
  "drained_after ops cb \<longleftrightarrow>
     (\<exists>a x b c. ops = a @ x # b @ Op_drain # c \<and> op_callback x = Some cb \<and> op_frame x \<noteq> None)"

section \<open>The readable side of the tunnel response (lib2.js)\<close>

text \<open>
  The seven listeners that the constructor of \<^verbatim>\<open>HTTP2TunnelResponse\<close> attaches to
  the tunnel socket, under the names of the source's closures.
\<close>

datatype listener =
    onResponse
  | onResponsePipe
  | onResponsePipes
  | onResponsePipeError
  | onResponsePipeEnd
  | onResponseTrailers
  | onRequestError

text \<open>
  One tunnel response object: the family of the events it listens to and emits
  (\<^term>\<open>HTTP2\<close> for \<^verbatim>\<open>HTTP2TunnelResponse\<close>), \<^verbatim>\<open>_responseId\<close>,
  \<^verbatim>\<open>_trailers\<close> (\<^verbatim>\<open>null\<close> at first), which of its listeners are attached to
  the socket, and whether \<^verbatim>\<open>destroy\<close> has been called on it.
\<close>

record tunnel_response =
  flavor :: family
  responseId :: rid
  trailers :: "headers option"
  attached :: "listener list"
  destroyed :: bool

text \<open>
  What a listener does besides changing the object: it pushes a chunk or the end
  mark to the readable side, emits \<^verbatim>\<open>response\<close>, \<^verbatim>\<open>trailers\<close> or
  \<^verbatim>\<open>requestError\<close> on the object, or emits a frame on the tunnel socket.
\<close>

datatype effect =
    Push chunk
  | Push_null
  | Emit_response response_head
  | Emit_trailers headers
  | Emit_requestError string
  | Socket_emit frame

text \<open>The constructor of \<^verbatim>\<open>HTTP2TunnelResponse\<close>.\<close>

definition new_HTTP2TunnelResponse :: "rid \<Rightarrow> tunnel_response" where
  "new_HTTP2TunnelResponse i =
     \<lparr>flavor = HTTP2, responseId = i, trailers = None,
      attached = [onResponse, onResponsePipe, onResponsePipes, onResponsePipeError,
                  onResponsePipeEnd, onResponseTrailers, onRequestError],
      destroyed = False\<rparr>"

text \<open>
  Modelled from the spec: the class \<^verbatim>\<open>TunnelResponse\<close> of \<^verbatim>\<open>./lib\<close>, the
  response object of the HTTP/1 handler, which is not among the sources. The
  specification says that the two event families carry the same semantics, differ
  in the prefix of the event names, and that trailers exist for the HTTP/2 family
  only: the object is the one above, listening to the unprefixed events, with no
  listener for trailers.
\<close>

definition new_TunnelResponse :: "rid \<Rightarrow> tunnel_response" where
  "new_TunnelResponse i =
     \<lparr>flavor = HTTP1, responseId = i, trailers = None,
      attached = [onResponse, onResponsePipe, onResponsePipes, onResponsePipeError,
                  onResponsePipeEnd, onRequestError],
      destroyed = False\<rparr>"

definition new_tunnel_response :: "family \<Rightarrow> rid \<Rightarrow> tunnel_response" where
  "new_tunnel_response fam i =
     (case fam of HTTP1 \<Rightarrow> new_TunnelResponse i | HTTP2 \<Rightarrow> new_HTTP2TunnelResponse i)"

text \<open>\<^verbatim>\<open>this._socket.off(name, l)\<close>.\<close>

definition socket_off :: "listener \<Rightarrow> tunnel_response \<Rightarrow> tunnel_response" where
  "socket_off l t = t\<lparr>attached := removeAll l (attached t)\<rparr>"

text \<open>
  \<^verbatim>\<open>destroy(e)\<close>: a stream is destroyed once; \<^verbatim>\<open>_destroy\<close> sends the message
  of an error to the peer. What the stream does once the transport has drained
  (its \<^verbatim>\<open>close\<close> and \<^verbatim>\<open>error\<close> events) is not followed.
\<close>

definition destroy :: "tunnel_response \<Rightarrow> string option \<Rightarrow> tunnel_response \<times> effect list" where
  "destroy t e =
     (if destroyed t then (t, [])
      else (t\<lparr>destroyed := True\<rparr>,
            case e of
              None \<Rightarrow> []
            | Some message \<Rightarrow> [Socket_emit (Response_pipe_error (flavor t) (responseId t) message)]))"

definition off_pipes :: "tunnel_response \<Rightarrow> tunnel_response" where
  "off_pipes t =
     socket_off onResponseTrailers (socket_off onResponsePipeEnd (socket_off onResponsePipeError
       (socket_off onResponsePipes (socket_off onResponsePipe t))))"

definition on_response :: "tunnel_response \<Rightarrow> rid \<Rightarrow> response_head \<Rightarrow> tunnel_response \<times> effect list" where
  "on_response t i data =
     (if responseId t = i
      then (socket_off onRequestError (socket_off onResponse t), [Emit_response data])
      else (t, []))"

definition on_response_pipe :: "tunnel_response \<Rightarrow> rid \<Rightarrow> chunk \<Rightarrow> tunnel_response \<times> effect list" where
  "on_response_pipe t i data = (if responseId t = i then (t, [Push data]) else (t, []))"

definition on_response_pipes :: "tunnel_response \<Rightarrow> rid \<Rightarrow> chunk list \<Rightarrow> tunnel_response \<times> effect list" where
  "on_response_pipes t i data = (if responseId t = i then (t, map Push data) else (t, []))"

definition on_response_pipe_error :: "tunnel_response \<Rightarrow> rid \<Rightarrow> string \<Rightarrow> tunnel_response \<times> effect list" where
  "on_response_pipe_error t i error =
     (if responseId t \<noteq> i then (t, []) else destroy (off_pipes t) (Some error))"

definition on_response_pipe_end :: "tunnel_response \<Rightarrow> rid \<Rightarrow> chunk option \<Rightarrow> tunnel_response \<times> effect list" where
  "on_response_pipe_end t i data =
     (if responseId t \<noteq> i then (t, [])
      else (off_pipes t,
            (case data of None \<Rightarrow> [] | Some d \<Rightarrow> [Push d]) @
            (case trailers t of None \<Rightarrow> [] | Some tr \<Rightarrow> [Emit_trailers tr]) @
            [Push_null]))"

definition on_response_trailers :: "tunnel_response \<Rightarrow> rid \<Rightarrow> headers \<Rightarrow> tunnel_response \<times> effect list" where
  "on_response_trailers t i tr =
     (if responseId t = i then (t\<lparr>trailers := Some tr\<rparr>, []) else (t, []))"

definition on_request_error :: "tunnel_response \<Rightarrow> rid \<Rightarrow> string \<Rightarrow> tunnel_response \<times> effect list" where
  "on_request_error t i error =
     (if i = responseId t
      then (off_pipes (socket_off onResponse (socket_off onRequestError t)), [Emit_requestError error])
      else (t, []))"

text \<open>
  The tunnel socket receives a frame: the listener attached for its event runs. A
  response object listens to the events of its own family, and to none of the
  request side.
\<close>

definition when_attached ::
  "listener \<Rightarrow> tunnel_response \<Rightarrow> tunnel_response \<times> effect list \<Rightarrow> tunnel_response \<times> effect list" where
  "when_attached l t r = (if l \<in> set (attached t) then r else (t, []))"

definition tunnel_deliver :: "tunnel_response \<Rightarrow> frame \<Rightarrow> tunnel_response \<times> effect list" where
  "tunnel_deliver t f =
     (if frame_family f \<noteq> flavor t then (t, [])
      else case f of
        Response _ i data \<Rightarrow> when_attached onResponse t (on_response t i data)
      | Response_pipe _ i data \<Rightarrow> when_attached onResponsePipe t (on_response_pipe t i data)
      | Response_pipes _ i data \<Rightarrow> when_attached onResponsePipes t (on_response_pipes t i data)
      | Response_pipe_error _ i error \<Rightarrow>
          when_attached onResponsePipeError t (on_response_pipe_error t i error)
      | Response_pipe_end _ i data \<Rightarrow>
          when_attached onResponsePipeEnd t (on_response_pipe_end t i data)
      | Response_trailers i tr \<Rightarrow>
          when_attached onResponseTrailers t (on_response_trailers t i tr)
      | Request_error _ i error \<Rightarrow> when_attached onRequestError t (on_request_error t i error)
      | _ \<Rightarrow> (t, []))"

section \<open>A tunneled request at the edge (http2server.js)\<close>

text \<open>
  The calls made on the response \<^verbatim>\<open>res\<close> of the public request: an assignment to
  \<^verbatim>\<open>statusCode\<close>, \<^verbatim>\<open>writeHead\<close>, \<^verbatim>\<open>write\<close>, and \<^verbatim>\<open>end\<close> with or without
  a body.
\<close>

datatype res_call =
    Set_statusCode nat
  | WriteHead nat string headers
  | Write chunk
  | End "string option"

text \<open>
  What one call of \<^verbatim>\<open>handleHTTP2Request\<close> or \<^verbatim>\<open>handleHTTP1Request\<close> holds of
  the response side: the tunnel response, whether the listeners given to
  \<^verbatim>\<open>tunnelResponse.once\<close> are still attached, the calls made on \<^verbatim>\<open>res\<close>, to
  which the tunnel response is piped, and the frames the tunnel response has sent
  to the agent.
\<close>

record tunneled =
  tunnelResponse :: tunnel_response
  once_requestError :: bool
  once_response :: bool
  res :: "res_call list"
  to_agent :: "frame list"

definition new_tunneled :: "family \<Rightarrow> rid \<Rightarrow> tunneled" where
  "new_tunneled fam requestId =
     \<lparr>tunnelResponse = new_tunnel_response fam requestId,
      once_requestError = True, once_response = True, res = [], to_agent = []\<rparr>"

text \<open>
  The closure \<^verbatim>\<open>onRequestError\<close> of the handler. It runs once. It calls
  \<^verbatim>\<open>destroy\<close> with no error, which sends nothing.
\<close>

definition edge_onRequestError :: "tunneled \<Rightarrow> tunneled" where
  "edge_onRequestError q =
     q\<lparr>once_requestError := False, once_response := False,
       tunnelResponse := fst (destroy (tunnelResponse q) None),
       res := res q @ [Set_statusCode 502, End (Some ''Request error'')]\<rparr>"

text \<open>
  The closure \<^verbatim>\<open>onResponse\<close> of the handler. It runs once. Its first statement
  takes \<^verbatim>\<open>onRequestError\<close> off \<^verbatim>\<open>tunnelRequest\<close>, where it was never attached, so
  the listener stays on \<^verbatim>\<open>tunnelResponse\<close>. The HTTP/2 handler deletes
  \<^verbatim>\<open>:status\<close> from the headers.
\<close>

definition edge_onResponse :: "tunneled \<Rightarrow> response_head \<Rightarrow> tunneled" where
  "edge_onResponse q head =
     q\<lparr>once_response := False,
       res := res q @
         [WriteHead (statusCode head) (statusMessage head)
            (if flavor (tunnelResponse q) = HTTP2 then (r_headers head)('':status'' := None)
             else r_headers head)]\<rparr>"

text \<open>
  One effect of the tunnel response reaches the handler: the events go to the
  listeners attached with \<^verbatim>\<open>once\<close>, pushed data goes down the pipe to \<^verbatim>\<open>res\<close>.
  Nothing listens to \<^verbatim>\<open>trailers\<close>.
\<close>

definition edge_effect :: "tunneled \<Rightarrow> effect \<Rightarrow> tunneled" where
  "edge_effect q eff =
     (case eff of
        Push c \<Rightarrow> q\<lparr>res := res q @ [Write c]\<rparr>
      | Push_null \<Rightarrow> q\<lparr>res := res q @ [End None]\<rparr>
      | Emit_response head \<Rightarrow> if once_response q then edge_onResponse q head else q
      | Emit_trailers tr \<Rightarrow> q
      | Emit_requestError error \<Rightarrow> if once_requestError q then edge_onRequestError q else q
      | Socket_emit f \<Rightarrow> q\<lparr>to_agent := to_agent q @ [f]\<rparr>)"

definition tunneled_deliver :: "tunneled \<Rightarrow> frame \<Rightarrow> tunneled" where
  "tunneled_deliver q f =
     (let r = tunnel_deliver (tunnelResponse q) f
      in foldl edge_effect (q\<lparr>tunnelResponse := fst r\<rparr>) (snd r))"

definition tunneled_run :: "tunneled \<Rightarrow> frame list \<Rightarrow> tunneled" where
  "tunneled_run q fs = foldl tunneled_deliver q fs"

text \<open>The effects of a tunnel response alone, over a sequence of frames.\<close>

fun tunnel_run :: "tunnel_response \<Rightarrow> frame list \<Rightarrow> tunnel_response \<times> effect list" where
  "tunnel_run t [] = (t, [])"
| "tunnel_run t (f # fs) =
     (let r = tunnel_deliver t f; r' = tunnel_run (fst r) fs in (fst r', snd r @ snd r'))"

text \<open>
  The frames on which a response object of their id and family writes to the
  client, ends the response or reports a request error: RESPONSE, the body, batch
  and end frames, and the request-error frame.
\<close>

fun answering_frame :: "frame \<Rightarrow> bool" where
  "answering_frame (Response _ _ _) = True"
| "answering_frame (Response_pipe _ _ _) = True"
| "answering_frame (Response_pipes _ _ _) = True"
| "answering_frame (Response_pipe_end _ _ _) = True"
| "answering_frame (Request_error _ _ _) = True"
| "answering_frame _ = False"

text \<open>
  A tunneled request of the family and id given to which nothing has been answered
  yet: nothing was written to the client, and the listeners of the request error
  are in place on the socket and on the tunnel response.
\<close>

definition awaiting :: "family \<Rightarrow> rid \<Rightarrow> tunneled \<Rightarrow> bool" where
  "awaiting fam i q =
     (res q = [] \<and> once_requestError q \<and> onRequestError \<in> set (attached (tunnelResponse q)) \<and>
      flavor (tunnelResponse q) = fam \<and> responseId (tunnelResponse q) = i)"

section \<open>A WebSocket upgrade at the edge (http2server.js)\<close>

text \<open>
  What \<^verbatim>\<open>handleUpgrade\<close> holds when it has sent the request: its tunnel response, of
  the HTTP/1 family, whether the listeners given to \<^verbatim>\<open>tunnelResponse.once\<close> are
  still attached, and the calls made on the raw socket of the client.
\<close>

datatype socket_call = Socket_write string | Socket_end | Socket_destroy

record upgraded =
  up_tunnelResponse :: tunnel_response
  up_once_requestError :: bool
  up_once_response :: bool
  up_socket :: "socket_call list"

text \<open>The closure \<^verbatim>\<open>onRequestError\<close> of \<^verbatim>\<open>handleUpgrade\<close>.\<close>

definition handleUpgrade_onRequestError :: "upgraded \<Rightarrow> upgraded" where
  "handleUpgrade_onRequestError q =
     q\<lparr>up_once_requestError := False, up_once_response := False,
       up_tunnelResponse := fst (destroy (up_tunnelResponse q) None),
       up_socket := up_socket q @ [Socket_end]\<rparr>"

section \<open>Header conversion (lib2.js)\<close>

text \<open>\<^verbatim>\<open>convertHTTP1HeadersToHTTP2(headers, method, path)\<close>.\<close>

definition convertHTTP1HeadersToHTTP2 :: "headers \<Rightarrow> string \<Rightarrow> string \<Rightarrow> headers" where
  "convertHTTP1HeadersToHTTP2 hs meth path =
     (let r1 = (if meth \<noteq> [] then hs('':method'' \<mapsto> meth) else hs);
          r2 = (if path \<noteq> [] then r1('':path'' \<mapsto> path) else r1);
          r3 = (if \<not> falsy (hs ''host'') then r2('':authority'' \<mapsto> the (hs ''host'')) else r2);
          r4 = r3('':scheme'' \<mapsto> ''https'')
      in if \<not> falsy (hs ''content-type'') \<and> js_includes (the (hs ''content-type'')) ''application/grpc''
         then r4(''content-type'' \<mapsto> the (hs ''content-type''), ''te'' \<mapsto> ''trailers'')
         else r4)"

section \<open>The agent dispatcher (http2client-example.js and its earlier version)\<close>

text \<open>
  The two agents among the sources: \<^verbatim>\<open>http2client-example.js\<close> and the earlier
  version of it, \<^verbatim>\<open>src/unnamed/part_003\<close>. Their handlers of the frames that
  come from the edge differ in two places, named below.
\<close>

datatype client_file = Example | Part_003

text \<open>
  A stream to the local origin, as \<^verbatim>\<open>localClient.request(headers)\<close> returns it:
  the headers it was opened with and the calls the handlers have made on it
  since, \<^verbatim>\<open>write\<close>, \<^verbatim>\<open>end\<close> and \<^verbatim>\<open>destroy\<close> with the message of the error.
\<close>

datatype stream_call = Stream_write chunk | Stream_end | Stream_destroy string

record origin_stream =
  opened_with :: headers
  calls :: "stream_call list"

text \<open>
  The state of the agent. \<^verbatim>\<open>localClient\<close> is \<^term>\<open>None\<close> when the variable
  holds no session, and else holds the session's \<^verbatim>\<open>destroyed\<close>. The stream
  objects live in a store, in the order of their creation;
  \<^verbatim>\<open>activeRequests\<close> maps a request id to the position of its stream.
  \<^verbatim>\<open>emitted\<close> holds the frames handed to \<^verbatim>\<open>socket.emit\<close>, and \<^verbatim>\<open>connects\<close>
  counts the calls of \<^verbatim>\<open>createLocalClient\<close>.
\<close>

record agent =
  localClient :: "bool option"
  activeRequests :: "rid \<rightharpoonup> nat"
  streams :: "origin_stream list"
  emitted :: "frame list"
  connects :: nat

definition createLocalClient :: "agent \<Rightarrow> agent" where
  "createLocalClient a = a\<lparr>localClient := Some False, connects := Suc (connects a)\<rparr>"

definition agent_emit :: "frame \<Rightarrow> agent \<Rightarrow> agent" where
  "agent_emit f a = a\<lparr>emitted := emitted a @ [f]\<rparr>"

text \<open>
  The handlers of \<^verbatim>\<open>http2-request\<close> and of \<^verbatim>\<open>request\<close>, up to the creation of
  the stream. Without a live session they answer with an error frame and return;
  \<^verbatim>\<open>http2client-example.js\<close> calls \<^verbatim>\<open>createLocalClient\<close> first, the earlier
  version does not. \<^verbatim>\<open>localClient.request\<close> belongs to the platform: the
  parameter \<^verbatim>\<open>request_throws\<close> gives the message of the error it throws, if it
  throws. The gRPC additions of \<^verbatim>\<open>http2client-example.js\<close> write to the converted
  headers what the conversion has put there already. The listeners that the
  handler attaches to the new stream answer to events of the origin and are not
  part of this model.
\<close>

definition on_request ::
  "client_file \<Rightarrow> (headers \<Rightarrow> string option) \<Rightarrow> family \<Rightarrow> rid \<Rightarrow> descriptor \<Rightarrow> agent \<Rightarrow> agent" where
  "on_request file request_throws fam requestId request a =
     (if localClient a = None \<or> localClient a = Some True
      then agent_emit (Request_error fam requestId ''Local HTTP/2 client not connected'')
             (if file = Example then createLocalClient a else a)
      else
        let hs = convertHTTP1HeadersToHTTP2 (d_headers request) (d_method request) (d_path request)
        in case request_throws hs of
             Some message \<Rightarrow> agent_emit (Request_error fam requestId message) a
           | None \<Rightarrow>
               a\<lparr>streams := streams a @ [\<lparr>opened_with = hs, calls = []\<rparr>],
                 activeRequests := (activeRequests a)(requestId \<mapsto> length (streams a))\<rparr>)"

text \<open>A call on the stream object at position \<^verbatim>\<open>s\<close> of the store.\<close>

definition stream_call_on :: "nat \<Rightarrow> stream_call \<Rightarrow> agent \<Rightarrow> agent" where
  "stream_call_on s c a =
     a\<lparr>streams := (streams a)[s := (streams a ! s)\<lparr>calls := calls (streams a ! s) @ [c]\<rparr>]\<rparr>"

text \<open>
  The loops of the batch handlers. The handler of \<^verbatim>\<open>http2-request-pipes\<close> in
  \<^verbatim>\<open>http2client-example.js\<close> leaves its loop after the first \<^verbatim>\<open>write\<close> that
  returns false; what \<^verbatim>\<open>write\<close> returns is the platform's, the parameter
  \<^verbatim>\<open>write_ok\<close> of the stream before the call and the chunk. The other batch
  handlers write every chunk.
\<close>

fun write_all :: "nat \<Rightarrow> chunk list \<Rightarrow> agent \<Rightarrow> agent" where
  "write_all s [] a = a"
| "write_all s (c # cs) a = write_all s cs (stream_call_on s (Stream_write c) a)"

fun write_until_full ::
  "(origin_stream \<Rightarrow> chunk \<Rightarrow> bool) \<Rightarrow> nat \<Rightarrow> chunk list \<Rightarrow> agent \<Rightarrow> agent" where
  "write_until_full write_ok s [] a = a"
| "write_until_full write_ok s (c # cs) a =
     (let success = write_ok (streams a ! s) c;
          a' = stream_call_on s (Stream_write c) a
      in if success then write_until_full write_ok s cs a' else a')"

text \<open>
  The agent receives a frame. The handlers of the body, batch, end and error frames
  look the stream up in \<^verbatim>\<open>activeRequests\<close> and do nothing without one. The agent
  attaches no listener for the frames of the response side.
\<close>

definition agent_on ::
  "client_file \<Rightarrow> (origin_stream \<Rightarrow> chunk \<Rightarrow> bool) \<Rightarrow> (headers \<Rightarrow> string option) \<Rightarrow>
   agent \<Rightarrow> frame \<Rightarrow> agent" where
  "agent_on file write_ok request_throws a f =
     (case f of
        Request fam requestId request \<Rightarrow> on_request file request_throws fam requestId request a
      | Request_pipe fam requestId c \<Rightarrow>
          (case activeRequests a requestId of
             None \<Rightarrow> a
           | Some s \<Rightarrow> stream_call_on s (Stream_write c) a)
      | Request_pipes fam requestId cs \<Rightarrow>
          (case activeRequests a requestId of
             None \<Rightarrow> a
           | Some s \<Rightarrow>
               if file = Example \<and> fam = HTTP2 then write_until_full write_ok s cs a
               else write_all s cs a)
      | Request_pipe_end fam requestId \<Rightarrow>
          (case activeRequests a requestId of
             None \<Rightarrow> a
           | Some s \<Rightarrow> stream_call_on s Stream_end a)
      | Request_pipe_error fam requestId error \<Rightarrow>
          (case activeRequests a requestId of
             None \<Rightarrow> a
           | Some s \<Rightarrow>
               (stream_call_on s (Stream_destroy error) a)
                 \<lparr>activeRequests := (activeRequests a)(requestId := None)\<rparr>)
      | _ \<Rightarrow> a)"

text \<open>The body, batch, end and error frames of the request side.\<close>

fun request_body_frame :: "frame \<Rightarrow> bool" where
  "request_body_frame (Request_pipe _ _ _) = True"
| "request_body_frame (Request_pipes _ _ _) = True"
| "request_body_frame (Request_pipe_end _ _) = True"
| "request_body_frame (Request_pipe_error _ _ _) = True"
| "request_body_frame _ = False"

text \<open>
  Held in every state of the agent: a stream that \<^verbatim>\<open>activeRequests\<close> names is in
  the store, and no two request ids name the same stream, since every request opens
  a stream of its own.
\<close>

definition agent_inv :: "agent \<Rightarrow> bool" where
  "agent_inv a \<longleftrightarrow>
     (\<forall>i s. activeRequests a i = Some s \<longrightarrow> s < length (streams a)) \<and>
     (\<forall>i j s. activeRequests a i = Some s \<and> activeRequests a j = Some s \<longrightarrow> i = j)"

section \<open>Strings\<close>

lemma indexOfFrom_range: "indexOfFrom i s p = - 1 \<or> int i \<le> indexOfFrom i s p"
proof (induction s arbitrary: i)
  case Nil
  show ?case by simp
next
  case (Cons c cs)
  from Cons [of "Suc i"] show ?case by auto
qed

lemma indexOf_zero_iff: "indexOf s p = 0 \<longleftrightarrow> prefix p s"
proof (cases s)
  case Nil
  then show ?thesis by (simp add: indexOf_def)
next
  case (Cons c cs)
  from indexOfFrom_range [of "Suc 0" cs p]
  have "indexOfFrom (Suc 0) cs p \<noteq> 0" by auto
  with Cons show ?thesis by (simp add: indexOf_def)
qed

section \<open>Routing\<close>

lemma falsy_length: "falsy (pathPrefix r) \<longleftrightarrow> prefix_length r = 0"
  by (simp add: falsy_def prefix_length_def split: option.splits)

lemma tunnel_matches_iff:
  "tunnel_matches h u r \<longleftrightarrow>
     host r = h \<and> (falsy (pathPrefix r) \<or> prefix (the (pathPrefix r)) u)"
  by (simp add: tunnel_matches_def indexOf_zero_iff)

lemma matches_candidates: "set (filter (tunnel_matches h u) R) = spec_candidates R h u"
  unfolding spec_candidates_def by (auto simp: tunnel_matches_iff)

lemma tunnel_cmp_less:
  "tunnel_cmp a b < 0 \<longleftrightarrow> prefix_length b < prefix_length a"
  by (auto simp: tunnel_cmp_def falsy_def prefix_length_def split: option.splits)

lemma set_insert_by: "set (insert_by cmp x ys) = insert x (set ys)"
  by (induction ys) auto

lemma set_foldl_insert_by:
  "set (foldl (\<lambda>acc x. insert_by cmp x acc) acc xs) = set acc \<union> set xs"
  by (induction xs arbitrary: acc) (auto simp: set_insert_by)

lemma set_js_sort: "set (js_sort cmp xs) = set xs"
  by (simp add: js_sort_def set_foldl_insert_by)

lemma head_longest_insert:
  "head_longest ys \<Longrightarrow> head_longest (insert_by tunnel_cmp x ys)"
proof (cases ys)
  case Nil
  then show ?thesis by (simp add: head_longest_def)
next
  case (Cons y ys')
  assume h: "head_longest ys"
  show ?thesis
  proof (cases "tunnel_cmp x y < 0")
    case True
    with h Cons show ?thesis
      by (auto simp: head_longest_def tunnel_cmp_less list_all_iff)
  next
    case False
    with h Cons show ?thesis
      by (auto simp: head_longest_def tunnel_cmp_less list_all_iff set_insert_by)
  qed
qed

lemma head_longest_foldl:
  "head_longest acc \<Longrightarrow> head_longest (foldl (\<lambda>acc x. insert_by tunnel_cmp x acc) acc xs)"
  by (induction xs arbitrary: acc) (simp_all add: head_longest_insert)

lemma head_longest_sort: "head_longest (js_sort tunnel_cmp xs)"
proof -
  have "head_longest []" by (simp add: head_longest_def)
  then show ?thesis unfolding js_sort_def by (rule head_longest_foldl)
qed

text \<open>
  C1. For every list of registrations, host and URL, \<^verbatim>\<open>getAvailableTunnelSocket\<close>
  returns null exactly when no registration of the host has an empty prefix or a
  prefix of the URL; otherwise it returns one of these registrations, no other of
  them has a longer prefix, and the one returned has a non-empty prefix whenever
  one of them has.
\<close>

theorem getAvailableTunnelSocket_longest_prefix:
  "(getAvailableTunnelSocket R h u = None \<longleftrightarrow> spec_candidates R h u = {}) \<and>
   (\<forall>r. getAvailableTunnelSocket R h u = Some r \<longrightarrow>
      r \<in> spec_candidates R h u \<and>
      (\<forall>r' \<in> spec_candidates R h u. prefix_length r' \<le> prefix_length r) \<and>
      ((\<exists>r' \<in> spec_candidates R h u. \<not> falsy (pathPrefix r')) \<longrightarrow> \<not> falsy (pathPrefix r)))"
proof -
  let ?ts = "js_sort tunnel_cmp (filter (tunnel_matches h u) R)"
  have s: "set ?ts = spec_candidates R h u"
    by (simp only: set_js_sort matches_candidates)
  have n: "getAvailableTunnelSocket R h u = None \<longleftrightarrow> spec_candidates R h u = {}"
  proof (cases ?ts)
    case Nil
    with s show ?thesis by (simp add: getAvailableTunnelSocket_def)
  next
    case (Cons t ts')
    with s have "spec_candidates R h u \<noteq> {}" by auto
    with Cons show ?thesis by (simp add: getAvailableTunnelSocket_def)
  qed
  have m: "r \<in> spec_candidates R h u \<and>
      (\<forall>r' \<in> spec_candidates R h u. prefix_length r' \<le> prefix_length r) \<and>
      ((\<exists>r' \<in> spec_candidates R h u. \<not> falsy (pathPrefix r')) \<longrightarrow> \<not> falsy (pathPrefix r))"
    if g: "getAvailableTunnelSocket R h u = Some r" for r
  proof -
    from g obtain ts' where c: "?ts = r # ts'"
      by (auto simp: getAvailableTunnelSocket_def Let_def split: list.splits)
    from c s have in_set: "r \<in> spec_candidates R h u" by auto
    from head_longest_sort [of "filter (tunnel_matches h u) R"] c s
    have le: "\<forall>r' \<in> spec_candidates R h u. prefix_length r' \<le> prefix_length r"
      by (auto simp: head_longest_def list_all_iff)
    have "\<not> falsy (pathPrefix r)"
      if "\<exists>r' \<in> spec_candidates R h u. \<not> falsy (pathPrefix r')"
    proof -
      from that obtain r' where "r' \<in> spec_candidates R h u" "prefix_length r' \<noteq> 0"
        by (auto simp: falsy_length)
      with le have "prefix_length r \<noteq> 0" by fastforce
      then show ?thesis by (simp add: falsy_length)
    qed
    with in_set le show ?thesis by blast
  qed
  from n m show ?thesis by blast
qed

text \<open>
  The specification's example: with \<^verbatim>\<open>(h, "")\<close> and \<^verbatim>\<open>(h, "/api_v1")\<close>
  registered, \<^verbatim>\<open>/api_v1/x\<close> resolves to the second.
\<close>

theorem getAvailableTunnelSocket_longest_prefix_witness:
  "getAvailableTunnelSocket
     [\<lparr>host = Some ''h'', pathPrefix = Some '''', socket = 1, supportsHTTP2 = False\<rparr>,
      \<lparr>host = Some ''h'', pathPrefix = Some ''/api_v1'', socket = 2, supportsHTTP2 = True\<rparr>]
     (Some ''h'') ''/api_v1/x''
   = Some \<lparr>host = Some ''h'', pathPrefix = Some ''/api_v1'', socket = 2, supportsHTTP2 = True\<rparr> \<and>
   \<lparr>host = Some ''h'', pathPrefix = Some ''/api_v1'', socket = 2, supportsHTTP2 = True\<rparr>
     \<in> spec_candidates
        [\<lparr>host = Some ''h'', pathPrefix = Some '''', socket = 1, supportsHTTP2 = False\<rparr>,
         \<lparr>host = Some ''h'', pathPrefix = Some ''/api_v1'', socket = 2, supportsHTTP2 = True\<rparr>]
        (Some ''h'') ''/api_v1/x''"
proof -
  let ?R = "[\<lparr>host = Some ''h'', pathPrefix = Some '''', socket = 1, supportsHTTP2 = False\<rparr>,
      \<lparr>host = Some ''h'', pathPrefix = Some ''/api_v1'', socket = 2, supportsHTTP2 = True\<rparr>]"
  have g: "getAvailableTunnelSocket ?R (Some ''h'') ''/api_v1/x''
    = Some \<lparr>host = Some ''h'', pathPrefix = Some ''/api_v1'', socket = 2, supportsHTTP2 = True\<rparr>"
    by (simp add: getAvailableTunnelSocket_def js_sort_def tunnel_matches_def tunnel_cmp_def
        falsy_def indexOf_def)
  from getAvailableTunnelSocket_longest_prefix [of ?R "Some ''h''" "''/api_v1/x''"] g
  show ?thesis by simp
qed

section \<open>Registration\<close>

text \<open>
  C5 fails on the code. Two sockets handshake with the Host \<^verbatim>\<open>h\<close>, the path
  prefix \<^verbatim>\<open>/p\<close> and a valid token, and the middleware sees the second before the
  connection handler of the first has run: the middleware admits both, since
  neither is registered yet, and the two connection handlers insert two
  registrations with the same key. When the first socket then disconnects, both
  entries are removed, the second socket still being connected. Had the connection
  handler of the first run before the second handshake, the second would have been
  refused with \<^verbatim>\<open>h has a existing connection\<close> and the registry left as it was.
\<close>

theorem registrations_not_unique:
  "tunnelSockets (edge_run (\<lambda>t k. Some (Some ''v''))
     \<lparr>JWT_GENERATOR_USERNAME = None, JWT_GENERATOR_PASSWORD = None,
      VERIFY_TOKEN = Some ''v'', SECRET_KEY = Some ''k''\<rparr>
     [Handshake \<lparr>hs_socket = 1, hs_headers = [''host'' \<mapsto> ''h'', ''path-prefix'' \<mapsto> ''/p''],
                 hs_token = Some ''t''\<rparr>,
      Handshake \<lparr>hs_socket = 2, hs_headers = [''host'' \<mapsto> ''h'', ''path-prefix'' \<mapsto> ''/p''],
                 hs_token = Some ''t''\<rparr>,
      Connection, Connection])
   = [\<lparr>host = Some ''h'', pathPrefix = Some ''/p'', socket = 1, supportsHTTP2 = False\<rparr>,
      \<lparr>host = Some ''h'', pathPrefix = Some ''/p'', socket = 2, supportsHTTP2 = False\<rparr>] \<and>
   tunnelSockets (edge_run (\<lambda>t k. Some (Some ''v''))
     \<lparr>JWT_GENERATOR_USERNAME = None, JWT_GENERATOR_PASSWORD = None,
      VERIFY_TOKEN = Some ''v'', SECRET_KEY = Some ''k''\<rparr>
     [Handshake \<lparr>hs_socket = 1, hs_headers = [''host'' \<mapsto> ''h'', ''path-prefix'' \<mapsto> ''/p''],
                 hs_token = Some ''t''\<rparr>,
      Handshake \<lparr>hs_socket = 2, hs_headers = [''host'' \<mapsto> ''h'', ''path-prefix'' \<mapsto> ''/p''],
                 hs_token = Some ''t''\<rparr>,
      Connection, Connection, Disconnect 1])
   = [] \<and>
   tunnelSockets (edge_run (\<lambda>t k. Some (Some ''v''))
     \<lparr>JWT_GENERATOR_USERNAME = None, JWT_GENERATOR_PASSWORD = None,
      VERIFY_TOKEN = Some ''v'', SECRET_KEY = Some ''k''\<rparr>
     [Handshake \<lparr>hs_socket = 1, hs_headers = [''host'' \<mapsto> ''h'', ''path-prefix'' \<mapsto> ''/p''],
                 hs_token = Some ''t''\<rparr>,
      Connection,
      Handshake \<lparr>hs_socket = 2, hs_headers = [''host'' \<mapsto> ''h'', ''path-prefix'' \<mapsto> ''/p''],
                 hs_token = Some ''t''\<rparr>,
      Connection])
   = [\<lparr>host = Some ''h'', pathPrefix = Some ''/p'', socket = 1, supportsHTTP2 = False\<rparr>] \<and>
   io_use (\<lambda>t k. Some (Some ''v''))
     \<lparr>JWT_GENERATOR_USERNAME = None, JWT_GENERATOR_PASSWORD = None,
      VERIFY_TOKEN = Some ''v'', SECRET_KEY = Some ''k''\<rparr>
     [\<lparr>host = Some ''h'', pathPrefix = Some ''/p'', socket = 1, supportsHTTP2 = False\<rparr>]
     \<lparr>hs_socket = 2, hs_headers = [''host'' \<mapsto> ''h'', ''path-prefix'' \<mapsto> ''/p''],
      hs_token = Some ''t''\<rparr>
   = [Next_Error ''h has a existing connection'']"
  by (simp add: edge_run_def edge_step_def io_use_def getTunnelSocket_def falsy_def
        connection_def setTunnelSocket_def disconnect_def onDisconnect_def removeTunnelSocket_def
        js_show_def Let_def)

section \<open>Dispatch of public requests\<close>

lemma indexOfFrom_sublist: "indexOfFrom i s p \<noteq> - 1 \<longleftrightarrow> sublist p s"
  by (induction s arbitrary: i) (auto simp: sublist_Cons_right)

lemma js_includes_iff: "js_includes s p \<longleftrightarrow> (\<exists>a b. s = a @ p @ b)"
  by (simp add: js_includes_def indexOf_def indexOfFrom_sublist sublist_def)

text \<open>
  C3, as amended. For every public request for which an agent is found, the request
  is handed to the HTTP/2 handler exactly when it is an HTTP/2 request or its
  Content-Type contains \<^verbatim>\<open>application/grpc\<close> anywhere, and the chosen agent
  supports HTTP/2; in every other case it is handed to the HTTP/1 handler. An agent
  supports HTTP/2 exactly when its handshake carried \<^verbatim>\<open>supports-http2\<close> with the
  value \<^verbatim>\<open>true\<close>.
\<close>

theorem handleRequest_flavor:
  "getAvailableTunnelSocket ts (headers req ''host'') (url req) = Some t \<Longrightarrow>
   handleRequest ts req i =
     (if (httpVersion req = ''2.0'' \<or>
          (\<exists>ct a b. headers req ''content-type'' = Some ct \<and> ct = a @ ''application/grpc'' @ b)) \<and>
         supportsHTTP2 t
      then HandleHTTP2Request (socket t) i else HandleHTTP1Request (socket t) i) \<and>
   (supportsHTTP2 (last (setTunnelSocket ts' h pp sock hs))
      \<longleftrightarrow> hs ''supports-http2'' = Some ''true'')"
  by (auto simp: handleRequest_def isHttp2_def js_includes_iff setTunnelSocket_def
        split: option.splits)

theorem handleRequest_flavor_witness:
  "handleRequest
     [\<lparr>host = Some ''h'', pathPrefix = Some [], socket = 1, supportsHTTP2 = True\<rparr>]
     \<lparr>httpVersion = ''2.0'', http_method = ''POST'', url = ''/pkg.Svc/Method'',
      headers = [''host'' \<mapsto> ''h''], encrypted = True, remoteAddress = Some ''10.0.0.1''\<rparr>
     ''id1''
   = HandleHTTP2Request 1 ''id1''"
proof -
  let ?R = "[\<lparr>host = Some ''h'', pathPrefix = Some [], socket = 1, supportsHTTP2 = True\<rparr>]"
  let ?req = "\<lparr>httpVersion = ''2.0'', http_method = ''POST'', url = ''/pkg.Svc/Method'',
      headers = [''host'' \<mapsto> ''h''], encrypted = True, remoteAddress = Some ''10.0.0.1''\<rparr>"
  have g: "getAvailableTunnelSocket ?R (headers ?req ''host'') (url ?req) = Some (hd ?R)"
    by (simp add: getAvailableTunnelSocket_def js_sort_def tunnel_matches_def falsy_def)
  from handleRequest_flavor [OF g, of "''id1''"] show ?thesis by simp
qed

text \<open>
  C3 as stated fails: an HTTP/1.1 request whose Content-Type is
  \<^verbatim>\<open>x-application/grpc\<close>, which does not begin with \<^verbatim>\<open>application/grpc\<close>, is
  handed to the HTTP/2 handler when the agent supports HTTP/2.
\<close>

theorem handleRequest_flavor_counterexample:
  "handleRequest
     [\<lparr>host = Some ''h'', pathPrefix = Some [], socket = 1, supportsHTTP2 = True\<rparr>]
     \<lparr>httpVersion = ''1.1'', http_method = ''POST'', url = ''/'',
      headers = [''host'' \<mapsto> ''h'', ''content-type'' \<mapsto> ''x-application/grpc''],
      encrypted = False, remoteAddress = Some ''10.0.0.1''\<rparr>
     ''id1''
   = HandleHTTP2Request 1 ''id1'' \<and>
   \<not> prefix ''application/grpc'' ''x-application/grpc''"
  by (simp add: handleRequest_def isHttp2_def js_includes_def indexOf_def
        getAvailableTunnelSocket_def js_sort_def tunnel_matches_def falsy_def)

section \<open>Forwarded headers\<close>

lemma forward_header_eq:
  "forward_header req hs (k, v) =
     hs(''x-forwarded-'' @ k \<mapsto> spec_appended (headers req (''x-forwarded-'' @ k)) v)"
  by (auto simp: forward_header_def spec_appended_def or_empty_def Let_def split: option.splits)

text \<open>
  C8. Whenever \<^verbatim>\<open>getReqHeaders\<close> returns, the header set equals the incoming
  headers but for four entries. \<^verbatim>\<open>x-forwarded-for\<close>, \<^verbatim>\<open>x-forwarded-port\<close>
  and \<^verbatim>\<open>x-forwarded-proto\<close> are the prior value, a comma and the new value, or
  the new value alone when there is no prior value; the new values are the remote
  address, the port of the Host header or else 443 over TLS and 80 otherwise, and
  https over TLS and http otherwise. \<^verbatim>\<open>x-forwarded-host\<close> is the incoming Host
  when \<^verbatim>\<open>x-forwarded-host\<close> is absent, and is unchanged otherwise. A header
  whose value is the empty string counts as absent, as the source's \<^verbatim>\<open>||\<close> has
  it.
\<close>

theorem getReqHeaders_forwarded:
  "getReqHeaders url_port req = Some hs \<Longrightarrow>
   (\<exists>port. url_port ((if encrypted req then ''https'' else ''http'') @ ''://'' @
                      or_empty (headers req ''host'')) = Some port \<and>
      hs ''x-forwarded-for'' =
        Some (spec_appended (headers req ''x-forwarded-for'') (js_show (remoteAddress req))) \<and>
      hs ''x-forwarded-port'' =
        Some (spec_appended (headers req ''x-forwarded-port'')
               (if port \<noteq> [] then port else if encrypted req then ''443'' else ''80'')) \<and>
      hs ''x-forwarded-proto'' =
        Some (spec_appended (headers req ''x-forwarded-proto'')
               (if encrypted req then ''https'' else ''http''))) \<and>
   hs ''x-forwarded-host'' =
     Some (if headers req ''x-forwarded-host'' = None \<or> headers req ''x-forwarded-host'' = Some []
           then or_empty (headers req ''host'') else the (headers req ''x-forwarded-host'')) \<and>
   (\<forall>k. k \<notin> {''x-forwarded-for'', ''x-forwarded-port'', ''x-forwarded-proto'', ''x-forwarded-host''}
        \<longrightarrow> hs k = headers req k)"
proof -
  assume g: "getReqHeaders url_port req = Some hs"
  let ?u = "(if encrypted req then ''https'' else ''http'') @ ''://'' @ or_empty (headers req ''host'')"
  from g obtain port where p: "url_port ?u = Some port"
    by (cases "url_port ?u") (simp_all add: getReqHeaders_def Let_def)
  let ?xh = "if falsy (headers req ''x-forwarded-host'') then or_empty (headers req ''host'')
             else the (headers req ''x-forwarded-host'')"
  from g p have hs: "hs = (headers req)
      (''x-forwarded-for'' \<mapsto> spec_appended (headers req ''x-forwarded-for'') (js_show (remoteAddress req)),
       ''x-forwarded-port'' \<mapsto> spec_appended (headers req ''x-forwarded-port'')
               (if port \<noteq> [] then port else if encrypted req then ''443'' else ''80''),
       ''x-forwarded-proto'' \<mapsto> spec_appended (headers req ''x-forwarded-proto'')
               (if encrypted req then ''https'' else ''http''),
       ''x-forwarded-host'' \<mapsto> ?xh)"
    by (simp add: getReqHeaders_def Let_def forward_header_eq)
  have f: "falsy v \<longleftrightarrow> v = None \<or> v = Some []" for v
    by (simp add: falsy_def split: option.splits)
  have 1: "hs ''x-forwarded-for'' =
        Some (spec_appended (headers req ''x-forwarded-for'') (js_show (remoteAddress req)))"
    by (simp add: hs)
  have 2: "hs ''x-forwarded-port'' =
        Some (spec_appended (headers req ''x-forwarded-port'')
               (if port \<noteq> [] then port else if encrypted req then ''443'' else ''80''))"
    by (simp add: hs)
  have 3: "hs ''x-forwarded-proto'' =
        Some (spec_appended (headers req ''x-forwarded-proto'')
               (if encrypted req then ''https'' else ''http''))"
    by (simp add: hs)
  have 4: "hs ''x-forwarded-host'' =
     Some (if headers req ''x-forwarded-host'' = None \<or> headers req ''x-forwarded-host'' = Some []
           then or_empty (headers req ''host'') else the (headers req ''x-forwarded-host''))"
    by (simp add: hs f)
  have 5: "hs k = headers req k"
    if "k \<notin> {''x-forwarded-for'', ''x-forwarded-port'', ''x-forwarded-proto'', ''x-forwarded-host''}" for k
    using that by (simp add: hs)
  from p 1 2 3 4 5 show ?thesis by blast
qed

text \<open>
  A request over TLS from \<^verbatim>\<open>10.0.0.1\<close> that a proxy at \<^verbatim>\<open>10.9.9.9\<close> already
  forwarded.
\<close>

theorem getReqHeaders_forwarded_witness:
  "the (getReqHeaders [''https://example.test'' \<mapsto> []]
     \<lparr>httpVersion = ''1.1'', http_method = ''GET'', url = ''/'',
      headers = [''host'' \<mapsto> ''example.test'', ''x-forwarded-for'' \<mapsto> ''10.9.9.9''],
      encrypted = True, remoteAddress = Some ''10.0.0.1''\<rparr>) ''x-forwarded-for''
   = Some ''10.9.9.9,10.0.0.1''"
proof -
  let ?req = "\<lparr>httpVersion = ''1.1'', http_method = ''GET'', url = ''/'',
      headers = [''host'' \<mapsto> ''example.test'', ''x-forwarded-for'' \<mapsto> ''10.9.9.9''],
      encrypted = True, remoteAddress = Some ''10.0.0.1''\<rparr>"
  obtain hs where g: "getReqHeaders [''https://example.test'' \<mapsto> []] ?req = Some hs"
    by (simp add: getReqHeaders_def or_empty_def Let_def)
  from getReqHeaders_forwarded [OF g]
  have "hs ''x-forwarded-for'' =
      Some (spec_appended (headers ?req ''x-forwarded-for'') (js_show (remoteAddress ?req)))"
    by blast
  then have "hs ''x-forwarded-for'' = Some ''10.9.9.9,10.0.0.1''"
    by (simp add: spec_appended_def js_show_def)
  with g show ?thesis by simp
qed

section \<open>The token generator\<close>

text \<open>
  C9 fails on the code. With the issuer credentials \<^verbatim>\<open>u\<close> and \<^verbatim>\<open>p\<close>
  configured, a signing key set and no agent registered, the request
  \<^verbatim>\<open>GET /tunnel_jwt_generator?username=u&password=p\<close> does not reach the route:
  its URL is not the bare path, so the server hands it to \<^verbatim>\<open>handleRequest\<close>,
  which answers 404 \<^verbatim>\<open>Not Found\<close>. The callback of the route, had it been
  called with these parameters, sends 200 and the signed token. The one URL that
  does reach the route carries no parameters, and is answered 401.
\<close>

theorem tunnel_jwt_generator_unreachable:
  "on_server_request (\<lambda>v k. Some ''signed'')
     (\<lambda>u. if u = ''/tunnel_jwt_generator?username=u&password=p''
           then \<lparr>username = Some ''u'', password = Some ''p''\<rparr>
           else \<lparr>username = None, password = None\<rparr>)
     \<lparr>JWT_GENERATOR_USERNAME = Some ''u'', JWT_GENERATOR_PASSWORD = Some ''p'',
      VERIFY_TOKEN = Some ''v'', SECRET_KEY = Some ''k''\<rparr>
     []
     \<lparr>httpVersion = ''1.1'', http_method = ''GET'',
      url = ''/tunnel_jwt_generator?username=u&password=p'',
      headers = [''host'' \<mapsto> ''h''], encrypted = False, remoteAddress = Some ''10.0.0.1''\<rparr>
     ''id1''
   = By_handleRequest (Respond 404 ''Not Found'') \<and>
   tunnel_jwt_generator (\<lambda>v k. Some ''signed'')
     \<lparr>JWT_GENERATOR_USERNAME = Some ''u'', JWT_GENERATOR_PASSWORD = Some ''p'',
      VERIFY_TOKEN = Some ''v'', SECRET_KEY = Some ''k''\<rparr>
     \<lparr>username = Some ''u'', password = Some ''p''\<rparr>
   = Sent 200 ''signed'' \<and>
   on_server_request (\<lambda>v k. Some ''signed'')
     (\<lambda>u. if u = ''/tunnel_jwt_generator?username=u&password=p''
           then \<lparr>username = Some ''u'', password = Some ''p''\<rparr>
           else \<lparr>username = None, password = None\<rparr>)
     \<lparr>JWT_GENERATOR_USERNAME = Some ''u'', JWT_GENERATOR_PASSWORD = Some ''p'',
      VERIFY_TOKEN = Some ''v'', SECRET_KEY = Some ''k''\<rparr>
     []
     \<lparr>httpVersion = ''1.1'', http_method = ''GET'', url = ''/tunnel_jwt_generator'',
      headers = [''host'' \<mapsto> ''h''], encrypted = False, remoteAddress = Some ''10.0.0.1''\<rparr>
     ''id1''
   = By_express (Some (Sent 401 ''Forbidden''))"
  by (simp add: on_server_request_def app_def tunnel_jwt_generator_def handleRequest_def
        getAvailableTunnelSocket_def js_sort_def falsy_def)

section \<open>Backpressure\<close>

lemma channel_step_emit:
  "op_callback x = Some cb \<Longrightarrow>
   drain_once (channel_step ch x) = drain_once ch @ [cb] \<and>
   called (channel_step ch x) = called ch \<and>
   wire (channel_step ch x) = wire ch @ [the (op_frame x)]"
  by (cases "(ch, x)" rule: channel_step.cases)
     (simp_all add: HTTP2TunnelRequest_write_def HTTP2TunnelRequest_writev_def
        HTTP2TunnelRequest_final_def HTTP2TunnelResponse_write_def HTTP2TunnelResponse_writev_def
        HTTP2TunnelResponse_final_def TunnelRequest_write_def TunnelRequest_writev_def
        TunnelRequest_final_def TunnelResponse_write_def TunnelResponse_writev_def
        TunnelResponse_final_def conn_once_drain_def socket_emit_def class_family_def
        request_class_def)

lemma channel_step_drain:
  "drain_once (channel_step ch Op_drain) = [] \<and>
   called (channel_step ch Op_drain) = called ch @ drain_once ch \<and>
   wire (channel_step ch Op_drain) = wire ch"
  by (simp add: conn_drain_def)

lemma op_callback_None: "op_callback x = None \<longleftrightarrow> x = Op_drain"
  by (cases x) simp_all

lemma op_frame_Some: "op_callback x = Some cb \<Longrightarrow> op_frame x \<noteq> None"
  by (cases x rule: op_frame.cases) simp_all

lemma channel_inv:
  "(\<forall>cb \<in> set (drain_once (foldl channel_step \<lparr>wire = [], drain_once = [], called = []\<rparr> ops)).
      emitted_before ops cb) \<and>
   (\<forall>cb \<in> set (called (foldl channel_step \<lparr>wire = [], drain_once = [], called = []\<rparr> ops)).
      drained_after ops cb)"
proof (induction ops rule: rev_induct)
  case Nil
  show ?case by simp
next
  case (snoc x ops)
  let ?ch = "foldl channel_step \<lparr>wire = [], drain_once = [], called = []\<rparr> ops"
  have e: "emitted_before (ops @ [x]) cb" if "emitted_before ops cb" for cb
  proof -
    from that obtain a y b where "ops = a @ y # b" "op_callback y = Some cb" "op_frame y \<noteq> None"
      by (auto simp: emitted_before_def)
    then have "ops @ [x] = a @ y # (b @ [x]) \<and> op_callback y = Some cb \<and> op_frame y \<noteq> None" by simp
    then show ?thesis unfolding emitted_before_def by blast
  qed
  have d: "drained_after (ops @ [x]) cb" if "drained_after ops cb" for cb
  proof -
    from that obtain a y b c where "ops = a @ y # b @ Op_drain # c" "op_callback y = Some cb" "op_frame y \<noteq> None"
      by (auto simp: drained_after_def)
    then have "ops @ [x] = a @ y # b @ Op_drain # (c @ [x]) \<and> op_callback y = Some cb \<and> op_frame y \<noteq> None"
      by simp
    then show ?thesis unfolding drained_after_def by blast
  qed
  show ?case
  proof (cases "op_callback x")
    case None
    then have x: "x = Op_drain" by (simp add: op_callback_None)
    have "drained_after (ops @ [x]) cb" if "emitted_before ops cb" for cb
    proof -
      from that obtain a y b where "ops = a @ y # b" "op_callback y = Some cb" "op_frame y \<noteq> None"
        by (auto simp: emitted_before_def)
      then have "ops @ [x] = a @ y # b @ Op_drain # [] \<and> op_callback y = Some cb \<and> op_frame y \<noteq> None"
        by (simp add: x)
      then show ?thesis unfolding drained_after_def by blast
    qed
    with snoc d show ?thesis by (auto simp: x conn_drain_def)
  next
    case (Some cb')
    have "emitted_before (ops @ [x]) cb'"
      unfolding emitted_before_def using Some op_frame_Some [OF Some] by blast
    with snoc e d channel_step_emit [OF Some, of ?ch] show ?thesis by auto
  qed
qed

lemma wire_run: "wire (foldl channel_step ch ops) = wire ch @ List.map_filter op_frame ops"
proof (induction ops arbitrary: ch)
  case Nil
  show ?case by (simp add: List.map_filter_simps)
next
  case (Cons x ops)
  show ?case
  proof (cases "op_callback x")
    case None
    then show ?thesis by (simp add: Cons op_callback_None conn_drain_def List.map_filter_simps)
  next
    case (Some cb)
    from op_frame_Some [OF Some] obtain f where f: "op_frame x = Some f" by blast
    with channel_step_emit [OF Some, of ch] show ?thesis
      by (simp add: Cons List.map_filter_simps)
  qed
qed

text \<open>
  C4. On every channel and after every sequence of calls of \<^verbatim>\<open>_write\<close>,
  \<^verbatim>\<open>_writev\<close> and \<^verbatim>\<open>_final\<close> of the tunnel streams of either family and of
  drain signals of the transport: a completion callback that has been invoked was
  given to a call that emitted its frame, and the transport emitted \<^verbatim>\<open>drain\<close>
  after that call. Every call emits its chunk, batch or end frame, in order.
\<close>

theorem callback_after_drain:
  "cb \<in> set (called (channel_run ops)) \<Longrightarrow>
   (\<exists>a x f b c. ops = a @ x # b @ Op_drain # c \<and>
       op_callback x = Some cb \<and> op_frame x = Some f) \<and>
   wire (channel_run ops) = List.map_filter op_frame ops"
proof -
  assume "cb \<in> set (called (channel_run ops))"
  with channel_inv [of ops] have "drained_after ops cb" by (simp add: channel_run_def)
  then have "\<exists>a x f b c. ops = a @ x # b @ Op_drain # c \<and>
       op_callback x = Some cb \<and> op_frame x = Some f"
    unfolding drained_after_def by blast
  moreover have "wire (channel_run ops) = List.map_filter op_frame ops"
    by (simp add: channel_run_def wire_run)
  ultimately show ?thesis by blast
qed

theorem callback_after_drain_witness:
  "called (channel_run [Op_write HTTP2TunnelRequest ''id1'' ''abc'' 7]) = [] \<and>
   called (channel_run [Op_write HTTP2TunnelRequest ''id1'' ''abc'' 7, Op_drain]) = [7] \<and>
   wire (channel_run [Op_write HTTP2TunnelRequest ''id1'' ''abc'' 7, Op_drain])
     = [Request_pipe HTTP2 ''id1'' ''abc'']"
proof -
  have c: "called (channel_run [Op_write HTTP2TunnelRequest ''id1'' ''abc'' 7, Op_drain]) = [7]"
    by (simp add: channel_run_def HTTP2TunnelRequest_write_def conn_once_drain_def socket_emit_def
          conn_drain_def)
  then have "7 \<in> set (called (channel_run [Op_write HTTP2TunnelRequest ''id1'' ''abc'' 7, Op_drain]))"
    by simp
  from callback_after_drain [OF this]
  have "wire (channel_run [Op_write HTTP2TunnelRequest ''id1'' ''abc'' 7, Op_drain])
     = [Request_pipe HTTP2 ''id1'' ''abc'']"
    by (simp add: List.map_filter_simps class_family_def request_class_def)
  moreover have "called (channel_run [Op_write HTTP2TunnelRequest ''id1'' ''abc'' 7]) = []"
    by (simp add: channel_run_def HTTP2TunnelRequest_write_def conn_once_drain_def socket_emit_def)
  ultimately show ?thesis using c by simp
qed

section \<open>Frames of other requests\<close>

lemmas listener_defs =
  on_response_def on_response_pipe_def on_response_pipes_def on_response_pipe_error_def
  on_response_pipe_end_def on_response_trailers_def on_request_error_def

lemma tunnel_deliver_other:
  "frame_id f \<noteq> responseId t \<Longrightarrow> tunnel_deliver t f = (t, [])"
  by (cases f) (auto simp: tunnel_deliver_def when_attached_def listener_defs)

lemma responseId_socket_off [simp]: "responseId (socket_off l t) = responseId t"
  by (simp add: socket_off_def)

lemma responseId_off_pipes [simp]: "responseId (off_pipes t) = responseId t"
  by (simp add: off_pipes_def)

lemma responseId_destroy [simp]: "responseId (fst (destroy t e)) = responseId t"
  by (simp add: destroy_def)

lemma responseId_deliver [simp]: "responseId (fst (tunnel_deliver t f)) = responseId t"
  by (cases f) (auto simp: tunnel_deliver_def when_attached_def listener_defs)

lemma tunnel_run_filter:
  "tunnel_run t fs = tunnel_run t (filter (\<lambda>f. frame_id f = responseId t) fs)"
proof (induction fs arbitrary: t)
  case Nil
  show ?case by simp
next
  case (Cons f fs)
  show ?case
  proof (cases "frame_id f = responseId t")
    case True
    with Cons [of "fst (tunnel_deliver t f)"] show ?thesis by (simp add: Let_def)
  next
    case False
    with Cons [of t] show ?thesis by (simp add: tunnel_deliver_other)
  qed
qed

lemma tunneled_deliver_other:
  "frame_id f \<noteq> responseId (tunnelResponse q) \<Longrightarrow> tunneled_deliver q f = q"
  by (simp add: tunneled_deliver_def tunnel_deliver_other)

lemma responseId_edge_effect [simp]:
  "responseId (tunnelResponse (edge_effect q eff)) = responseId (tunnelResponse q)"
  by (cases eff) (simp_all add: edge_effect_def edge_onResponse_def edge_onRequestError_def)

lemma responseId_foldl_edge_effect [simp]:
  "responseId (tunnelResponse (foldl edge_effect q effs)) = responseId (tunnelResponse q)"
  by (induction effs arbitrary: q) simp_all

lemma responseId_tunneled_deliver [simp]:
  "responseId (tunnelResponse (tunneled_deliver q f)) = responseId (tunnelResponse q)"
  by (simp add: tunneled_deliver_def Let_def)

lemma tunneled_run_filter:
  "tunneled_run q fs = tunneled_run q (filter (\<lambda>f. frame_id f = responseId (tunnelResponse q)) fs)"
  unfolding tunneled_run_def
proof (induction fs arbitrary: q)
  case Nil
  show ?case by simp
next
  case (Cons f fs)
  show ?case
  proof (cases "frame_id f = responseId (tunnelResponse q)")
    case True
    with Cons [of "tunneled_deliver q f"] show ?thesis by simp
  next
    case False
    with Cons [of q] show ?thesis by (simp add: tunneled_deliver_other)
  qed
qed

section \<open>Errors before the response\<close>

lemma tunnel_deliver_detached: "attached t = [] \<Longrightarrow> tunnel_deliver t f = (t, [])"
  by (cases f) (simp_all add: tunnel_deliver_def when_attached_def)

lemma tunneled_deliver_detached:
  "attached (tunnelResponse q) = [] \<Longrightarrow> tunneled_deliver q f = q"
  by (simp add: tunneled_deliver_def tunnel_deliver_detached)

lemma tunneled_run_detached:
  "attached (tunnelResponse q) = [] \<Longrightarrow> tunneled_run q fs = q"
  unfolding tunneled_run_def by (induction fs) (simp_all add: tunneled_deliver_detached)

lemma tunneled_run_others:
  "\<forall>f \<in> set pre. frame_id f \<noteq> responseId (tunnelResponse q) \<Longrightarrow> tunneled_run q pre = q"
  unfolding tunneled_run_def by (induction pre) (simp_all add: tunneled_deliver_other)

lemma tunneled_run_append: "tunneled_run q (xs @ ys) = tunneled_run (tunneled_run q xs) ys"
  by (simp add: tunneled_run_def)

lemma no_listener_left:
  "attached (off_pipes (socket_off onResponse (socket_off onRequestError t))) = []"
proof -
  have "l \<notin> set (attached (off_pipes (socket_off onResponse (socket_off onRequestError t))))" for l
    by (cases l) (simp_all add: off_pipes_def socket_off_def)
  then show ?thesis by (cases "attached (off_pipes (socket_off onResponse (socket_off onRequestError t)))") auto
qed

lemma awaiting_new: "awaiting fam i (new_tunneled fam i)"
  by (cases fam)
     (simp_all add: awaiting_def new_tunneled_def new_tunnel_response_def
        new_HTTP2TunnelResponse_def new_TunnelResponse_def)

lemma awaiting_deliver:
  assumes "awaiting fam i q" and "frame_id f = i \<longrightarrow> \<not> answering_frame f"
  shows "awaiting fam i (tunneled_deliver q f)"
proof (cases "frame_id f = i")
  case False
  with assms(1) show ?thesis by (simp add: awaiting_def tunneled_deliver_other)
next
  case True
  with assms(2) have n: "\<not> answering_frame f" by simp
  from assms(1) n show ?thesis
    by (cases f)
       (auto simp: awaiting_def tunneled_deliver_def tunnel_deliver_def when_attached_def
          on_response_pipe_error_def on_response_trailers_def destroy_def off_pipes_def
          socket_off_def edge_effect_def Let_def)
qed

lemma awaiting_run:
  "awaiting fam i q \<Longrightarrow> \<forall>f \<in> set pre. frame_id f = i \<longrightarrow> \<not> answering_frame f \<Longrightarrow>
   awaiting fam i (tunneled_run q pre)"
  unfolding tunneled_run_def
  by (induction pre arbitrary: q) (simp_all add: awaiting_deliver)

lemma awaiting_request_error:
  assumes "awaiting fam i q"
  shows "res (tunneled_deliver q (Request_error fam i msg)) =
           [Set_statusCode 502, End (Some ''Request error'')] \<and>
         attached (tunnelResponse (tunneled_deliver q (Request_error fam i msg))) = []"
proof -
  let ?t = "off_pipes (socket_off onResponse (socket_off onRequestError (tunnelResponse q)))"
  from assms have d: "tunnel_deliver (tunnelResponse q) (Request_error fam i msg) =
      (?t, [Emit_requestError msg])"
    by (simp add: awaiting_def tunnel_deliver_def when_attached_def on_request_error_def)
  have a: "attached (fst (destroy ?t None)) = []"
    by (simp add: destroy_def no_listener_left)
  from assms a show ?thesis
    by (simp add: tunneled_deliver_def d edge_effect_def edge_onRequestError_def awaiting_def)
qed

text \<open>
  C6, as amended. For every public request tunneled by \<^verbatim>\<open>handleHTTP1Request\<close> or
  \<^verbatim>\<open>handleHTTP2Request\<close>: when a \<^verbatim>\<open>request-error\<close> (\<^verbatim>\<open>http2-request-error\<close>)
  frame of its id arrives before any RESPONSE, body, batch or end frame and before
  any other request-error frame of that id, the handler sets the status 502 and
  ends the response with the body \<^verbatim>\<open>Request error\<close>, and nothing else is written
  to the client; every listener of the tunnel response is detached, and no later
  frame, a RESPONSE of the same id included, changes anything.
\<close>

theorem request_error_before_response:
  "\<forall>f \<in> set pre. frame_id f = i \<longrightarrow> \<not> answering_frame f \<Longrightarrow>
   res (tunneled_run (new_tunneled fam i) (pre @ [Request_error fam i msg])) =
     [Set_statusCode 502, End (Some ''Request error'')] \<and>
   attached (tunnelResponse (tunneled_run (new_tunneled fam i) (pre @ [Request_error fam i msg]))) = [] \<and>
   tunneled_run (new_tunneled fam i) (pre @ Request_error fam i msg # post) =
     tunneled_run (new_tunneled fam i) (pre @ [Request_error fam i msg])"
proof -
  assume "\<forall>f \<in> set pre. frame_id f = i \<longrightarrow> \<not> answering_frame f"
  with awaiting_new have w: "awaiting fam i (tunneled_run (new_tunneled fam i) pre)"
    by (rule awaiting_run)
  let ?p = "tunneled_run (new_tunneled fam i) pre"
  let ?q = "tunneled_deliver ?p (Request_error fam i msg)"
  have r: "tunneled_run (new_tunneled fam i) (pre @ [Request_error fam i msg]) = ?q"
    by (simp add: tunneled_run_append) (simp add: tunneled_run_def)
  from awaiting_request_error [OF w, of msg]
  have s: "res ?q = [Set_statusCode 502, End (Some ''Request error'')]"
    and a: "attached (tunnelResponse ?q) = []" by simp_all
  have "tunneled_run (new_tunneled fam i) (pre @ Request_error fam i msg # post) =
      tunneled_run ?q post"
    by (simp add: tunneled_run_append) (simp add: tunneled_run_def)
  with a have "tunneled_run (new_tunneled fam i) (pre @ Request_error fam i msg # post) = ?q"
    by (simp add: tunneled_run_detached)
  with r s a show ?thesis by simp
qed

theorem request_error_before_response_witness:
  "res (tunneled_run (new_tunneled HTTP2 ''id1'')
     [Response_pipe HTTP2 ''id2'' ''x'', Response_trailers ''id1'' Map.empty,
      Request_error HTTP2 ''id1'' ''Local HTTP/2 client not connected'',
      Response HTTP2 ''id1'' \<lparr>statusCode = 200, statusMessage = ''OK'', r_headers = Map.empty\<rparr>])
   = [Set_statusCode 502, End (Some ''Request error'')]"
proof -
  have "\<forall>f \<in> set [Response_pipe HTTP2 ''id2'' ''x'', Response_trailers ''id1'' Map.empty].
      frame_id f = ''id1'' \<longrightarrow> \<not> answering_frame f" by simp
  from request_error_before_response [OF this, of HTTP2 "''Local HTTP/2 client not connected''"
      "[Response HTTP2 ''id1'' \<lparr>statusCode = 200, statusMessage = ''OK'', r_headers = Map.empty\<rparr>]"]
  show ?thesis by simp
qed

text \<open>
  C6 as stated fails. When the first frame of the id is the other error frame of
  the response side, \<^verbatim>\<open>http2-response-pipe-error\<close>, nothing is written to the
  client, no status 502 among it, and the listeners \<^verbatim>\<open>onResponse\<close> and
  \<^verbatim>\<open>onRequestError\<close> stay attached; the tunnel response is destroyed with the
  error, which it reports to the agent. When a body frame precedes the request
  error, the body is written before the status is set. And for a WebSocket upgrade
  the request error ends the raw socket with no status at all.
\<close>

theorem request_error_before_response_counterexample:
  "res (tunneled_run (new_tunneled HTTP2 ''id1'') [Response_pipe_error HTTP2 ''id1'' ''boom'']) = [] \<and>
   attached (tunnelResponse
     (tunneled_run (new_tunneled HTTP2 ''id1'') [Response_pipe_error HTTP2 ''id1'' ''boom'']))
     = [onResponse, onRequestError] \<and>
   to_agent (tunneled_run (new_tunneled HTTP2 ''id1'') [Response_pipe_error HTTP2 ''id1'' ''boom''])
     = [Response_pipe_error HTTP2 ''id1'' ''boom''] \<and>
   res (tunneled_run (new_tunneled HTTP2 ''id1'')
     [Response_pipe HTTP2 ''id1'' ''x'', Request_error HTTP2 ''id1'' ''late''])
     = [Write ''x'', Set_statusCode 502, End (Some ''Request error'')] \<and>
   up_socket (handleUpgrade_onRequestError
     \<lparr>up_tunnelResponse = new_TunnelResponse ''id1'', up_once_requestError = True,
      up_once_response = True, up_socket = []\<rparr>)
     = [Socket_end]"
  by (simp add: tunneled_run_def tunneled_deliver_def tunnel_deliver_def when_attached_def
        new_tunneled_def new_tunnel_response_def new_HTTP2TunnelResponse_def
        on_response_pipe_error_def on_response_pipe_def on_request_error_def off_pipes_def
        socket_off_def edge_effect_def edge_onRequestError_def destroy_def
        handleUpgrade_onRequestError_def)

section \<open>The agent\<close>

lemma stream_call_on_simps [simp]:
  "activeRequests (stream_call_on s c a) = activeRequests a"
  "length (streams (stream_call_on s c a)) = length (streams a)"
  "s' \<noteq> s \<Longrightarrow> streams (stream_call_on s c a) ! s' = streams a ! s'"
  by (simp_all add: stream_call_on_def)

lemma write_all_simps [simp]:
  "activeRequests (write_all s cs a) = activeRequests a"
  "length (streams (write_all s cs a)) = length (streams a)"
  "s' \<noteq> s \<Longrightarrow> streams (write_all s cs a) ! s' = streams a ! s'"
  by (induction cs arbitrary: a) simp_all

lemma write_until_full_simps [simp]:
  "activeRequests (write_until_full ok s cs a) = activeRequests a"
  "length (streams (write_until_full ok s cs a)) = length (streams a)"
  "s' \<noteq> s \<Longrightarrow> streams (write_until_full ok s cs a) ! s' = streams a ! s'"
  by (induction cs arbitrary: a) (simp_all add: Let_def)

lemma on_request_other:
  assumes "agent_inv a" "i \<noteq> j" "activeRequests a j = Some s"
  shows "activeRequests (on_request file rt fam i d a) j = Some s \<and>
         streams (on_request file rt fam i d a) ! s = streams a ! s"
proof -
  from assms have l: "s < length (streams a)" by (auto simp: agent_inv_def)
  from assms have "activeRequests (on_request file rt fam i d a) j = Some s"
    by (simp add: on_request_def agent_emit_def createLocalClient_def Let_def split: option.splits)
  moreover from l have "streams (on_request file rt fam i d a) ! s = streams a ! s"
    by (simp add: on_request_def agent_emit_def createLocalClient_def Let_def nth_append
          split: option.splits)
  ultimately show ?thesis by simp
qed

lemma agent_inv_on_request: "agent_inv a \<Longrightarrow> agent_inv (on_request file rt fam i d a)"
  unfolding agent_inv_def
  by (fastforce simp: on_request_def agent_emit_def createLocalClient_def Let_def less_Suc_eq
        split: option.splits if_splits)

lemma agent_inv_cong:
  "activeRequests a' = activeRequests a \<Longrightarrow> length (streams a') = length (streams a) \<Longrightarrow>
   agent_inv a \<Longrightarrow> agent_inv a'"
  by (simp add: agent_inv_def)

lemma agent_inv_delete:
  "agent_inv a \<Longrightarrow> agent_inv (a\<lparr>activeRequests := (activeRequests a)(i := None)\<rparr>)"
  by (auto simp: agent_inv_def)

lemma agent_inv_agent_on: "agent_inv a \<Longrightarrow> agent_inv (agent_on file ok rt a f)"
proof (cases f)
  case (Request fam i d)
  assume "agent_inv a"
  with Request show ?thesis by (simp add: agent_on_def agent_inv_on_request)
next
  case (Request_pipe_error fam i e)
  assume a: "agent_inv a"
  show ?thesis
  proof (cases "activeRequests a i")
    case None
    with a Request_pipe_error show ?thesis by (simp add: agent_on_def)
  next
    case (Some s)
    from a have "agent_inv (stream_call_on s (Stream_destroy e) a)"
      by (rule agent_inv_cong [rotated 2]) simp_all
    from agent_inv_delete [OF this, of i] Request_pipe_error Some show ?thesis
      by (simp add: agent_on_def)
  qed
qed (auto simp: agent_on_def split: option.splits elim: agent_inv_cong [rotated 2])

lemma agent_on_other:
  assumes "agent_inv a" "frame_id f \<noteq> j" "activeRequests a j = Some s"
  shows "activeRequests (agent_on file ok rt a f) j = Some s \<and>
         streams (agent_on file ok rt a f) ! s = streams a ! s"
proof -
  have ne: "s' \<noteq> s" if "activeRequests a (frame_id f) = Some s'" for s'
    using assms that by (auto simp: agent_inv_def)
  show ?thesis
  proof (cases f)
    case (Request fam i d)
    with assms have "i \<noteq> j" by simp
    from on_request_other [OF assms(1) this assms(3)] Request show ?thesis
      by (simp add: agent_on_def)
  qed (use assms ne in \<open>auto simp: agent_on_def split: option.splits\<close>)
qed

text \<open>
  C10. For every body, batch, end or error frame of the request side whose id has
  no entry in \<^verbatim>\<open>activeRequests\<close>, the handler of either agent leaves the whole
  state as it was: no call is made on any stream, \<^verbatim>\<open>activeRequests\<close> is
  unchanged and no frame is emitted.
\<close>

theorem unknown_id_is_ignored:
  "request_body_frame f \<Longrightarrow> activeRequests a (frame_id f) = None \<Longrightarrow>
   agent_on file write_ok request_throws a f = a"
  by (cases f) (simp_all add: agent_on_def)

theorem unknown_id_is_ignored_witness:
  "agent_on Example (\<lambda>s c. True) (\<lambda>hs. None)
     \<lparr>localClient = Some False, activeRequests = [''id1'' \<mapsto> 0],
      streams = [\<lparr>opened_with = Map.empty, calls = []\<rparr>], emitted = [], connects = 1\<rparr>
     (Request_pipe HTTP2 ''id2'' ''abc'')
   = \<lparr>localClient = Some False, activeRequests = [''id1'' \<mapsto> 0],
      streams = [\<lparr>opened_with = Map.empty, calls = []\<rparr>], emitted = [], connects = 1\<rparr>"
  by (rule unknown_id_is_ignored) simp_all

text \<open>
  C7, as amended. Whenever an agent receives a \<^verbatim>\<open>request\<close> or
  \<^verbatim>\<open>http2-request\<close> frame while it holds no session to the local origin, or a
  destroyed one, it emits \<^verbatim>\<open>request-error\<close> (\<^verbatim>\<open>http2-request-error\<close>) for that
  id with the message \<^verbatim>\<open>Local HTTP/2 client not connected\<close>, opens no stream and
  leaves \<^verbatim>\<open>activeRequests\<close> as it was; \<^verbatim>\<open>http2client-example.js\<close> also starts a
  new session.
\<close>

theorem not_connected_reply:
  "localClient a = None \<or> localClient a = Some True \<Longrightarrow>
   agent_on file write_ok request_throws a (Request fam i request) =
     (if file = Example then createLocalClient a else a)
       \<lparr>emitted := emitted a @ [Request_error fam i ''Local HTTP/2 client not connected'']\<rparr> \<and>
   streams (agent_on file write_ok request_throws a (Request fam i request)) = streams a \<and>
   activeRequests (agent_on file write_ok request_throws a (Request fam i request)) = activeRequests a \<and>
   event_name (Request_error fam i ''Local HTTP/2 client not connected'') =
     family_prefix fam @ ''request-error''"
  by (auto simp: agent_on_def on_request_def agent_emit_def createLocalClient_def)

theorem not_connected_reply_witness:
  "emitted (agent_on Example (\<lambda>s c. True) (\<lambda>hs. None)
     \<lparr>localClient = None, activeRequests = Map.empty, streams = [], emitted = [], connects = 0\<rparr>
     (Request HTTP2 ''id1''
        \<lparr>d_method = ''GET'', d_headers = Map.empty, d_path = ''/'', d_httpVersion = Some ''2.0''\<rparr>))
   = [Request_error HTTP2 ''id1'' ''Local HTTP/2 client not connected'']"
proof -
  let ?a = "\<lparr>localClient = None, activeRequests = Map.empty, streams = [], emitted = [], connects = 0\<rparr>"
  have "localClient ?a = None \<or> localClient ?a = Some True" by simp
  from not_connected_reply [OF this, of Example "\<lambda>s c. True" "\<lambda>hs. None" HTTP2 "''id1''"]
  show ?thesis by (simp add: createLocalClient_def)
qed

text \<open>
  C7 as stated fails: the message of the error frame is not
  \<^verbatim>\<open>Local client not connected\<close>.
\<close>

theorem not_connected_reply_counterexample:
  "emitted (agent_on Part_003 top Map.empty
     \<lparr>localClient = None, activeRequests = Map.empty, streams = [], emitted = [], connects = 0\<rparr>
     (Request HTTP2 ''id1''
        \<lparr>d_method = ''GET'', d_headers = Map.empty, d_path = ''/'', d_httpVersion = Some ''2.0''\<rparr>))
   = [Request_error HTTP2 ''id1'' ''Local HTTP/2 client not connected''] \<and>
   ''Local HTTP/2 client not connected'' \<noteq> ''Local client not connected''"
  by (simp add: agent_on_def on_request_def agent_emit_def)

section \<open>Isolation of requests\<close>

text \<open>
  C2. A response object does nothing on a frame whose id is not its own: no listener
  of it pushes data, emits an event or changes the object. So what a response
  object pushes and emits over any sequence of frames, and what the handler of a
  tunneled request writes to its client, is what the frames of its own id alone
  produce: the frames of another request, its cancellation among them, change
  nothing of it. On the agent, a frame of another id leaves the entry and the
  stream of a request as they were.
\<close>

theorem frames_isolated:
  "(frame_id f \<noteq> responseId t \<longrightarrow> tunnel_deliver t f = (t, [])) \<and>
   tunnel_run t fs = tunnel_run t (filter (\<lambda>f. frame_id f = responseId t) fs) \<and>
   tunneled_run q fs =
     tunneled_run q (filter (\<lambda>f. frame_id f = responseId (tunnelResponse q)) fs) \<and>
   (agent_inv a \<and> frame_id f \<noteq> j \<and> activeRequests a j = Some s \<longrightarrow>
      activeRequests (agent_on file write_ok request_throws a f) j = Some s \<and>
      streams (agent_on file write_ok request_throws a f) ! s = streams a ! s \<and>
      agent_inv (agent_on file write_ok request_throws a f))"
proof -
  have "activeRequests (agent_on file write_ok request_throws a f) j = Some s \<and>
      streams (agent_on file write_ok request_throws a f) ! s = streams a ! s \<and>
      agent_inv (agent_on file write_ok request_throws a f)"
    if "agent_inv a" "frame_id f \<noteq> j" "activeRequests a j = Some s"
    using agent_on_other [OF that] agent_inv_agent_on [OF that(1)] by simp
  with tunnel_deliver_other [of f t] tunnel_run_filter [of t fs] tunneled_run_filter [of q fs]
  show ?thesis by blast
qed

text \<open>
  The bytes pushed for \<^verbatim>\<open>j\<close> when the request \<^verbatim>\<open>i\<close> is cancelled between
  two chunks of \<^verbatim>\<open>j\<close>.
\<close>

theorem frames_isolated_witness:
  "tunnel_run (new_HTTP2TunnelResponse ''j'')
     [Response_pipe HTTP2 ''j'' ''a'', Response_pipe_error HTTP2 ''i'' ''cancelled'',
      Response_pipe HTTP2 ''j'' ''b'']
   = (new_HTTP2TunnelResponse ''j'', [Push ''a'', Push ''b''])"
proof -
  from frames_isolated [of "Response_pipe_error HTTP2 ''i'' ''cancelled''"
      "new_HTTP2TunnelResponse ''j''"
      "[Response_pipe HTTP2 ''j'' ''a'', Response_pipe_error HTTP2 ''i'' ''cancelled'',
        Response_pipe HTTP2 ''j'' ''b'']"]
  have "tunnel_run (new_HTTP2TunnelResponse ''j'')
     [Response_pipe HTTP2 ''j'' ''a'', Response_pipe_error HTTP2 ''i'' ''cancelled'',
      Response_pipe HTTP2 ''j'' ''b'']
    = tunnel_run (new_HTTP2TunnelResponse ''j'')
     [Response_pipe HTTP2 ''j'' ''a'', Response_pipe HTTP2 ''j'' ''b'']"
    by (simp add: new_HTTP2TunnelResponse_def)
  then show ?thesis
    by (simp add: tunnel_deliver_def when_attached_def new_HTTP2TunnelResponse_def
          on_response_pipe_def Let_def)
qed

end
